theory Spec2Isabelle
  imports Complex_Main
begin

section \<open>JavaScript numbers\<close>

text \<open>
  A JavaScript \<open>number\<close> is an IEEE 754 binary64 value. Every finite double is a
  rational, so a number is a finite rational or one of the three special values.
  Negative zero is identified with zero: the denominators of this development are running
  sums that start at \<open>+0\<close>, which are never \<open>-0\<close>, and \<open>-0\<close> is falsy and prints
  like \<open>0\<close>.
\<close>

datatype number = Fin rat | PosInf | NegInf | NaN

text \<open>The sign of an infinite result.\<close>

definition signedInf :: "bool \<Rightarrow> number" where
  "signedInf negative = (if negative then NegInf else PosInf)"

subsection \<open>Rounding to binary64\<close>

text \<open>
  The exact result of \<open>+\<close>, \<open>*\<close> and \<open>/\<close> is rounded to the nearest double, to the
  one with the even significand on a tie, and to an infinity from \<open>2^1024 - 2^970\<close>
  on. For \<open>a / b \<ge> 1\<close>, the largest \<open>k\<close> with \<open>b * 2^k \<le> a\<close>; for
  \<open>0 < a / b < 1\<close>, the least \<open>k\<close> with \<open>b \<le> a * 2^k\<close>.
\<close>

function binade_ge1 :: "int \<Rightarrow> int \<Rightarrow> nat" where
  "binade_ge1 a b = (if 0 < b \<and> b * 2 \<le> a then Suc (binade_ge1 a (b * 2)) else 0)"
  by pat_completeness auto
termination
  by (relation "measure (\<lambda>(a, b). nat (a - b))") auto

declare binade_ge1.simps [simp del]

function binade_lt1 :: "int \<Rightarrow> int \<Rightarrow> nat" where
  "binade_lt1 a b = (if 0 < a \<and> a < b then Suc (binade_lt1 (a * 2) b) else 0)"
  by pat_completeness auto
termination
  by (relation "measure (\<lambda>(a, b). nat (b - a))") auto

declare binade_lt1.simps [simp del]

text \<open>The quotient \<open>num / den\<close> rounded to the nearest integer, to the even one on a tie.\<close>

definition roundHalfEven :: "int \<Rightarrow> int \<Rightarrow> int" where
  "roundHalfEven num den =
     (let n = num div den; r = 2 * (num mod den)
      in if r < den then n else if den < r then n + 1 else if even n then n else n + 1)"

text \<open>
  The double nearest to a rational: with \<open>e\<close> the binary exponent of its magnitude (at
  least \<open>-1022\<close>, where the subnormal numbers begin), the magnitude is rounded to a
  multiple \<open>n\<close> of \<open>2^(e - 52)\<close>.
\<close>

definition round64 :: "rat \<Rightarrow> number" where
  "round64 q =
     (if q = 0 then Fin 0
      else (let (a, b) = quotient_of \<bar>q\<bar>;
                e = max (if b \<le> a then int (binade_ge1 a b) else - int (binade_lt1 a b))
                      (- 1022);
                n = (if e \<le> 52 then roundHalfEven (a * 2 ^ nat (52 - e)) b
                     else roundHalfEven a (b * 2 ^ nat (e - 52)))
            in if 1023 < e \<or> (e = 1023 \<and> 2 ^ 53 \<le> n) then signedInf (q < 0)
               else (let r = (if e \<le> 52 then Fract n (2 ^ nat (52 - e))
                              else of_int (n * 2 ^ nat (e - 52)))
                     in Fin (if q < 0 then - r else r))))"

text \<open>
  The arithmetic of a computation: \<open>Binary64\<close> is the arithmetic of the program;
  \<open>Exact\<close> does not round, and is the decimal arithmetic of sums and the arithmetic of
  a statement made in exact arithmetic.
\<close>

datatype arithmetic = Exact | Binary64

fun rounded :: "arithmetic \<Rightarrow> rat \<Rightarrow> number" where
  "rounded Exact q = Fin q"
| "rounded Binary64 q = round64 q"

subsection \<open>Operators\<close>

fun isFinite :: "number \<Rightarrow> bool" where
  "isFinite (Fin _) = True"
| "isFinite _ = False"

fun fin :: "number \<Rightarrow> rat" where
  "fin (Fin q) = q"
| "fin _ = 0"

text \<open>\<open>a + b\<close>\<close>

fun jsadd :: "arithmetic \<Rightarrow> number \<Rightarrow> number \<Rightarrow> number" where
  "jsadd m NaN _ = NaN"
| "jsadd m _ NaN = NaN"
| "jsadd m (Fin a) (Fin b) = rounded m (a + b)"
| "jsadd m PosInf NegInf = NaN"
| "jsadd m NegInf PosInf = NaN"
| "jsadd m PosInf _ = PosInf"
| "jsadd m NegInf _ = NegInf"
| "jsadd m (Fin _) b = b"

fun isNegative :: "number \<Rightarrow> bool" where
  "isNegative (Fin q) = (q < 0)"
| "isNegative NegInf = True"
| "isNegative _ = False"

text \<open>\<open>a * b\<close>\<close>

fun jsmul :: "arithmetic \<Rightarrow> number \<Rightarrow> number \<Rightarrow> number" where
  "jsmul m NaN _ = NaN"
| "jsmul m _ NaN = NaN"
| "jsmul m (Fin a) (Fin b) = rounded m (a * b)"
| "jsmul m (Fin a) b =
     (if a = 0 then NaN else signedInf (isNegative (Fin a) \<noteq> isNegative b))"
| "jsmul m a (Fin b) =
     (if b = 0 then NaN else signedInf (isNegative a \<noteq> isNegative (Fin b)))"
| "jsmul m a b = signedInf (isNegative a \<noteq> isNegative b)"

text \<open>\<open>a / b\<close>: a zero divisor gives \<open>NaN\<close> for \<open>0 / 0\<close> and an infinity otherwise.\<close>

fun jsdiv :: "arithmetic \<Rightarrow> number \<Rightarrow> number \<Rightarrow> number" where
  "jsdiv m NaN _ = NaN"
| "jsdiv m _ NaN = NaN"
| "jsdiv m (Fin a) (Fin b) =
     (if b = 0 then (if a = 0 then NaN else signedInf (a < 0)) else rounded m (a / b))"
| "jsdiv m (Fin a) _ = Fin 0"
| "jsdiv m a (Fin b) = signedInf (isNegative a \<noteq> isNegative (Fin b))"
| "jsdiv m _ _ = NaN"

text \<open>\<open>a > b\<close>: false as soon as one side is \<open>NaN\<close>.\<close>

fun jsgt :: "number \<Rightarrow> number \<Rightarrow> bool" where
  "jsgt NaN _ = False"
| "jsgt _ NaN = False"
| "jsgt (Fin a) (Fin b) = (a > b)"
| "jsgt PosInf b = (b \<noteq> PosInf)"
| "jsgt a NegInf = (a \<noteq> NegInf)"
| "jsgt _ _ = False"

text \<open>\<open>a || 0\<close>: the falsy numbers are \<open>NaN\<close> and zero.\<close>

definition or_zero :: "number \<Rightarrow> number" where
  "or_zero a = (if a = NaN \<or> a = Fin 0 then Fin 0 else a)"

text \<open>
  \<open>undefined / b\<close>: the operand of an optional chain that found nothing is
  \<open>undefined\<close>, which converts to \<open>NaN\<close>.
\<close>

definition toNumber :: "number option \<Rightarrow> number" where
  "toNumber v = (case v of None \<Rightarrow> NaN | Some a \<Rightarrow> a)"

subsection \<open>Number.prototype.toPrecision\<close>

text \<open>
  \<open>x.toPrecision(p)\<close> as ECMAScript defines it, on the exact value of the double:
  \<open>e\<close> and \<open>n\<close>
  with \<open>10^(p-1) \<le> n < 10^p\<close> and \<open>n * 10^(e-p+1)\<close> closest to \<open>x\<close> (the larger
  \<open>n\<close> on a tie), printed in fixed notation when \<open>-6 \<le> e < p\<close> and in exponential
  notation otherwise. The only call site passes \<open>p = 3\<close>; the RangeError for \<open>p\<close>
  outside \<open>1..100\<close> is not modelled.
\<close>

definition digit :: "nat \<Rightarrow> char" where
  "digit d = ''0123456789'' ! (d mod 10)"

fun digits :: "nat \<Rightarrow> string" where
  "digits n = (if n < 10 then [digit n] else digits (n div 10) @ [digit (n mod 10)])"

declare digits.simps [simp del]

text \<open>\<open>a / b \<ge> 1\<close>: the largest \<open>k\<close> with \<open>b * 10^k \<le> a\<close>.\<close>

function magnitude_ge1 :: "int \<Rightarrow> int \<Rightarrow> nat" where
  "magnitude_ge1 a b = (if 0 < b \<and> b * 10 \<le> a then Suc (magnitude_ge1 a (b * 10)) else 0)"
  by pat_completeness auto
termination
  by (relation "measure (\<lambda>(a, b). nat (a - b))") auto

declare magnitude_ge1.simps [simp del]

text \<open>\<open>0 < a / b < 1\<close>: the least \<open>k\<close> with \<open>b \<le> a * 10^k\<close>.\<close>

function magnitude_lt1 :: "int \<Rightarrow> int \<Rightarrow> nat" where
  "magnitude_lt1 a b = (if 0 < a \<and> a < b then Suc (magnitude_lt1 (a * 10) b) else 0)"
  by pat_completeness auto
termination
  by (relation "measure (\<lambda>(a, b). nat (b - a))") auto

declare magnitude_lt1.simps [simp del]

text \<open>The decimal exponent \<open>\<lfloor>log10 x\<rfloor>\<close> of a positive rational.\<close>

definition exponent10 :: "rat \<Rightarrow> int" where
  "exponent10 x =
     (let (a, b) = quotient_of x
      in if b \<le> a then int (magnitude_ge1 a b) else - int (magnitude_lt1 a b))"

definition pow10 :: "int \<Rightarrow> rat" where
  "pow10 k = (if 0 \<le> k then 10 ^ nat k else 1 / 10 ^ nat (- k))"

text \<open>Rounding to the nearest integer, the larger one on a tie.\<close>

definition roundHalfUp :: "rat \<Rightarrow> nat" where
  "roundHalfUp x = nat \<lfloor>x + 1 / 2\<rfloor>"

text \<open>The pair \<open>(n, e)\<close> of a positive rational at precision \<open>p\<close>.\<close>

definition significand :: "rat \<Rightarrow> nat \<Rightarrow> nat \<times> int" where
  "significand x p =
     (let e = exponent10 x;
          n = roundHalfUp (x * pow10 (int p - 1 - e))
      in if n < 10 ^ p then (n, e) else (roundHalfUp (x * pow10 (int p - 2 - e)), e + 1))"

definition formatDigits :: "string \<Rightarrow> int \<Rightarrow> nat \<Rightarrow> string" where
  "formatDigits m e p =
     (if e < - 6 \<or> int p \<le> e then
        (if p = 1 then m else take 1 m @ ''.'' @ drop 1 m)
          @ ''e'' @ (if 0 \<le> e then ''+'' else ''-'') @ digits (nat \<bar>e\<bar>)
      else if e = int p - 1 then m
      else if 0 \<le> e then take (nat e + 1) m @ ''.'' @ drop (nat e + 1) m
      else ''0.'' @ replicate (nat (- (e + 1))) (CHR ''0'') @ m)"

definition toPrecision :: "number \<Rightarrow> nat \<Rightarrow> string" where
  "toPrecision x p =
     (case x of
        NaN \<Rightarrow> ''NaN''
      | PosInf \<Rightarrow> ''Infinity''
      | NegInf \<Rightarrow> ''-Infinity''
      | Fin q \<Rightarrow>
          (if q = 0 then formatDigits (replicate p (CHR ''0'')) 0 p
           else (let (n, e) = significand \<bar>q\<bar> p
                 in (if q < 0 then ''-'' else '''') @ formatDigits (digits n) e p)))"

section \<open>The data model of the rule engine\<close>

type_synonym Currency = string

text \<open>
  Modelled from the spec: the interface of a position (spec 3), whose declaration is not
  among the sources. One held instrument; \<open>sectors\<close> and \<open>countries\<close> pair a name
  with its allocation weight. The rule reads \<open>currency\<close> and \<open>investment\<close>, as numbers.
\<close>

record Position =
  symbol :: string
  currency :: Currency
  assetClass :: string
  quantity :: number
  marketPrice :: number
  sectors :: "(string \<times> number) list"
  countries :: "(string \<times> number) list"
  investment :: number

text \<open>
  Modelled from the spec: the interface \<open>CurrentPositions\<close> (spec 3), whose declaration
  is not among the sources: the position set of one user, with the fees and the symbols
  whose market data could not be resolved. The rule reads \<open>positions\<close>.
\<close>

record CurrentPositions =
  positions :: "Position list"
  fees :: number
  errors :: "string list"

text \<open>
  Modelled from the spec: the element of a grouped sequence (spec 3), which the grouping
  helper returns. The rule reads \<open>groupKey\<close> and \<open>investment\<close>.
\<close>

record GroupItem =
  groupKey :: string
  investment :: number
  positions :: "Position list"

text \<open>What \<open>evaluate\<close> returns: the two fields of its object literals.\<close>

record Evaluation =
  evaluation :: string
  "value" :: bool

text \<open>
  Modelled from the spec: the interface \<open>RuleSettings\<close> (spec 3), whose declaration is
  not among the sources; it always carries \<open>isActive\<close>.
\<close>

record RuleSettings =
  isActive :: bool

text \<open>\<open>interface Settings extends RuleSettings { baseCurrency: Currency }\<close>\<close>

record Settings = RuleSettings +
  baseCurrency :: Currency

text \<open>
  Modelled from the spec: the interface \<open>UserSettings\<close>, whose declaration is not among
  the sources; the user settings supply the base currency (spec 6). \<open>getSettings\<close>
  reads \<open>baseCurrency\<close> only; whatever else the user settings carry is the extension
  of the record.
\<close>

record UserSettings =
  baseCurrency :: Currency

text \<open>
  The rule object: the constructor stores the exchange rate service, the name
  \<open>Initial Investment: Base Currency\<close> and the current positions.
\<close>

record 'e Rule =
  exchangeRateDataService :: 'e
  name :: string
  currentPositions :: CurrentPositions

definition CurrencyClusterRiskBaseCurrencyInitialInvestment ::
    "'e \<Rightarrow> CurrentPositions \<Rightarrow> 'e Rule" where
  "CurrencyClusterRiskBaseCurrencyInitialInvestment service current =
     \<lparr>exchangeRateDataService = service,
      name = ''Initial Investment: Base Currency'',
      currentPositions = current\<rparr>"

text \<open>Reading a property of \<open>undefined\<close> raises a TypeError.\<close>

datatype error = TypeError

section \<open>Grouping helper\<close>

text \<open>
  The method \<open>groupCurrentPositionsByAttribute\<close> belongs to the base class \<open>Rule\<close>,
  which is not among the sources. The spec (4.2) gives its contract as
  \<open>groupByAttribute(positions, attributeSelector, optionalPinnedKey)\<close>: positions are
  grouped by the value of the attribute, a position with several weighted sub-attributes
  is allocated to each of their groups with its investment multiplied by the weight, the
  groups are in the order of first occurrence, and when a pinned key is supplied and has
  no group, an empty group with zero investment is created for it; investment sums use
  decimal arithmetic. The rule reads the investment of a group as a number, so the
  helper hands each sum over as a number of the arithmetic.
\<close>

text \<open>
  Modelled from the spec: the attribute selector of the missing helper. The values of an
  attribute of a position, each with its allocation weight: one value of weight 1 for a
  single-valued attribute, the weighted names for sectors and countries, none for a
  name that is not an attribute.
\<close>

definition attributeValues :: "string \<Rightarrow> Position \<Rightarrow> (string \<times> number) list" where
  "attributeValues attribute p =
     (if attribute = ''currency'' then [(currency p, Fin 1)]
      else if attribute = ''symbol'' then [(symbol p, Fin 1)]
      else if attribute = ''assetClass'' then [(assetClass p, Fin 1)]
      else if attribute = ''sectors'' then sectors p
      else if attribute = ''countries'' then countries p
      else [])"

text \<open>
  Modelled from the spec: one allocation of the missing helper. The weighted investment
  of the position is added, in decimal arithmetic, to the group of the key, and a key
  seen for the first time gets a new group at the end of the sequence.
\<close>

fun addToGroup :: "Position \<Rightarrow> string \<times> number \<Rightarrow> GroupItem list \<Rightarrow> GroupItem list" where
  "addToGroup p (key, weight) [] =
     [\<lparr>groupKey = key,
       investment = jsadd Exact (Fin 0) (jsmul Exact (Position.investment p) weight),
       positions = [p]\<rparr>]"
| "addToGroup p (key, weight) (g # gs) =
     (if groupKey g = key
      then g\<lparr>investment :=
               jsadd Exact (investment g) (jsmul Exact (Position.investment p) weight),
             positions := positions g @ [p]\<rparr> # gs
      else g # addToGroup p (key, weight) gs)"

text \<open>
  Modelled from the spec: the grouping of the missing helper, position by position in
  input order.
\<close>

definition groupPositions :: "Position list \<Rightarrow> string \<Rightarrow> GroupItem list" where
  "groupPositions ps attribute =
     fold (\<lambda>p gs. fold (addToGroup p) (attributeValues attribute p) gs) ps []"

text \<open>
  Modelled from the spec: the conversion of the decimal sums of the missing helper to
  numbers of the arithmetic.
\<close>

fun asNumber :: "arithmetic \<Rightarrow> number \<Rightarrow> number" where
  "asNumber m (Fin q) = rounded m q"
| "asNumber m a = a"

definition asNumbers :: "arithmetic \<Rightarrow> GroupItem list \<Rightarrow> GroupItem list" where
  "asNumbers m gs = map (\<lambda>g. g\<lparr>investment := asNumber m (investment g)\<rparr>) gs"

text \<open>
  Modelled from the spec: the missing helper \<open>groupCurrentPositionsByAttribute\<close>. The
  groups of the positions, each sum as a number, and behind them an empty group with
  zero investment for the pinned key when it has no group.
\<close>

definition groupCurrentPositionsByAttribute ::
    "arithmetic \<Rightarrow> Position list \<Rightarrow> string \<Rightarrow> string option \<Rightarrow> GroupItem list" where
  "groupCurrentPositionsByAttribute m ps attribute optionalPinnedKey =
     (let groups = asNumbers m (groupPositions ps attribute)
      in case optionalPinnedKey of
           None \<Rightarrow> groups
         | Some key \<Rightarrow>
             (if find (\<lambda>item. groupKey item = key) groups = None
              then groups @ [\<lparr>groupKey = key, investment = Fin 0, positions = []\<rparr>]
              else groups))"

section \<open>The rule \<open>CurrencyClusterRiskBaseCurrencyInitialInvestment\<close>\<close>

text \<open>
  The body of the \<open>forEach\<close>: the state is the pair of the local variables \<open>maxItem\<close> and
  \<open>totalInvestment\<close>.
\<close>

definition forEachStep ::
    "arithmetic \<Rightarrow> GroupItem \<Rightarrow> GroupItem \<times> number \<Rightarrow> GroupItem \<times> number" where
  "forEachStep m groupItem state =
     (let (maxItem, totalInvestment) = state
      in (if jsgt (investment groupItem) (investment maxItem) then groupItem else maxItem,
          jsadd m totalInvestment (investment groupItem)))"

text \<open>
  \<open>baseCurrencyItem?.investment / totalInvestment || 0\<close>, with \<open>baseCurrencyItem\<close> the
  first group whose key is the base currency.
\<close>

definition baseCurrencyInvestmentRatio ::
    "arithmetic \<Rightarrow> GroupItem list \<Rightarrow> number \<Rightarrow> Currency \<Rightarrow> number" where
  "baseCurrencyInvestmentRatio m positionsGroupedByCurrency totalInvestment base =
     (let baseCurrencyItem = find (\<lambda>item. groupKey item = base) positionsGroupedByCurrency
      in or_zero
           (jsdiv m (toNumber (map_option investment baseCurrencyItem)) totalInvestment))"

definition evaluationText :: "arithmetic \<Rightarrow> bool \<Rightarrow> number \<Rightarrow> Currency \<Rightarrow> string" where
  "evaluationText m inBase ratio base =
     (if inBase
      then ''The major part of your initial investment is in your base currency (''
      else ''The major part of your initial investment is not in your base currency ('')
     @ toPrecision (jsmul m ratio (Fin 100)) 3 @ ''% in '' @ base @ '')''"

text \<open>
  Lines 64 to 98 of \<open>evaluate\<close>, on the grouped sequence. On the empty sequence
  \<open>maxItem\<close> is \<open>undefined\<close>, the \<open>forEach\<close> body never runs, and reading
  \<open>maxItem.groupKey\<close> raises.
\<close>

definition evaluateGrouped ::
    "arithmetic \<Rightarrow> GroupItem list \<Rightarrow> Settings \<Rightarrow> error + Evaluation" where
  "evaluateGrouped m positionsGroupedByCurrency ruleSettings =
     (case positionsGroupedByCurrency of
        [] \<Rightarrow> Inl TypeError
      | first # _ \<Rightarrow>
          (let (maxItem, totalInvestment) =
                 fold (forEachStep m) positionsGroupedByCurrency (first, Fin 0);
               ratio = baseCurrencyInvestmentRatio m positionsGroupedByCurrency totalInvestment
                         (Settings.baseCurrency ruleSettings)
           in if groupKey maxItem \<noteq> Settings.baseCurrency ruleSettings
              then Inr \<lparr>evaluation =
                          evaluationText m False ratio (Settings.baseCurrency ruleSettings),
                        value = False\<rparr>
              else Inr \<lparr>evaluation =
                          evaluationText m True ratio (Settings.baseCurrency ruleSettings),
                        value = True\<rparr>))"

text \<open>
  The grouping helper is a method of the rule object: it receives the object, which
  holds the live positions array, with its three arguments, and it returns the grouped
  sequence and the object as it leaves it.
\<close>

type_synonym 'e GroupingMethod =
  "'e Rule \<Rightarrow> Position list \<Rightarrow> string \<Rightarrow> Currency \<Rightarrow> GroupItem list \<times> 'e Rule"

text \<open>
  \<open>evaluate\<close> in state-passing form, over the helper: the result, and the rule object
  (with the \<open>CurrentPositions\<close> it holds) as it is after the call. The helper is the
  only callee that receives the object; the statements of \<open>evaluate\<close> assign to local
  variables only.
\<close>

definition evaluateWith ::
    "arithmetic \<Rightarrow> 'e GroupingMethod \<Rightarrow> 'e Rule \<Rightarrow> Settings
       \<Rightarrow> (error + Evaluation) \<times> 'e Rule" where
  "evaluateWith m helper this ruleSettings =
     (let (positionsGroupedByCurrency, after) =
            helper this
              (CurrentPositions.positions (currentPositions this))
              ''currency''
              (Settings.baseCurrency ruleSettings)
      in (evaluateGrouped m positionsGroupedByCurrency ruleSettings, after))"

text \<open>
  Modelled from the spec: the missing helper as a method of the rule object. It reads
  its three arguments only and leaves the object as it is (spec 4.3 and 9: the positions
  are not mutated).
\<close>

definition groupingMethod :: "arithmetic \<Rightarrow> 'e GroupingMethod" where
  "groupingMethod m this ps attribute pinnedKey =
     (groupCurrentPositionsByAttribute m ps attribute (Some pinnedKey), this)"

text \<open>\<open>evaluate\<close> with the helper of the spec.\<close>

definition evaluate ::
    "arithmetic \<Rightarrow> 'e Rule \<Rightarrow> Settings \<Rightarrow> (error + Evaluation) \<times> 'e Rule" where
  "evaluate m this ruleSettings = evaluateWith m (groupingMethod m) this ruleSettings"

definition getSettings :: "'a UserSettings_scheme \<Rightarrow> Settings" where
  "getSettings aUserSettings =
     \<lparr>isActive = True, Settings.baseCurrency = UserSettings.baseCurrency aUserSettings\<rparr>"

section \<open>Report assembly\<close>

text \<open>
  The rule evaluator is not among the sources. The spec (4.4) has it iterate the ordered
  catalog of rules, derive the settings of each rule by its \<open>getSettings\<close>, skip the
  rule when \<open>isActive\<close> is false, and otherwise append the rule's name with its
  evaluation to the report, in catalog order.
\<close>

text \<open>
  Modelled from the spec: the capabilities of a rule in the catalog of the missing
  evaluator (spec 4.3): its name, \<open>getSettings\<close> and \<open>evaluate\<close>.
\<close>

record ('u, 's) RuleInterface =
  getName :: string
  ruleGetSettings :: "'u \<Rightarrow> 's RuleSettings_scheme"
  ruleEvaluate :: "'s RuleSettings_scheme \<Rightarrow> error + Evaluation"

text \<open>
  Modelled from the spec: an entry of the report of the missing evaluator (spec 6), a
  record of name, evaluation and value.
\<close>

record PortfolioReportRule = Evaluation +
  name :: string

text \<open>
  Modelled from the spec: the missing evaluator \<open>evaluateAll\<close> (spec 4.4), over the
  catalog and the user settings. A rule that raises fails the whole report.
\<close>

fun evaluateAll ::
    "('u, 's) RuleInterface list \<Rightarrow> 'u \<Rightarrow> error + PortfolioReportRule list" where
  "evaluateAll [] aUserSettings = Inr []"
| "evaluateAll (rule # catalog) aUserSettings =
     (let settings = ruleGetSettings rule aUserSettings
      in if \<not> isActive settings then evaluateAll catalog aUserSettings
         else (case ruleEvaluate rule settings of
                 Inl e \<Rightarrow> Inl e
               | Inr result \<Rightarrow>
                   (case evaluateAll catalog aUserSettings of
                      Inl e \<Rightarrow> Inl e
                    | Inr report \<Rightarrow>
                        Inr (\<lparr>evaluation = evaluation result, value = value result,
                              name = getName rule\<rparr> # report))))"

text \<open>The currency rule as a member of the catalog.\<close>

definition currencyRule ::
    "arithmetic \<Rightarrow> 'e Rule
       \<Rightarrow> ('a UserSettings_scheme, \<lparr>Settings.baseCurrency :: Currency\<rparr>) RuleInterface" where
  "currencyRule m this =
     \<lparr>getName = Rule.name this,
      ruleGetSettings = getSettings,
      ruleEvaluate = (\<lambda>ruleSettings. fst (evaluate m this ruleSettings))\<rparr>"

section \<open>The portfolio controller\<close>

text \<open>
  The collaborators of the controller and their types are declared outside the sources;
  they are parameters of the model, with the fields that the controller reads and
  writes. A holding: the three fields that the restricted view sets to \<open>null\<close> are
  optional, and \<open>null\<close> converts to zero in arithmetic.
\<close>

record PortfolioPosition =
  allocationCurrent :: number
  assetClass :: string
  countries :: "(string \<times> number) list"
  currency :: Currency
  grossPerformance :: "number option"
  investment :: number
  marketPrice :: number
  name :: string
  netPerformance :: "number option"
  quantity :: "number option"
  sectors :: "(string \<times> number) list"
  "value" :: number

definition nullToNumber :: "number option \<Rightarrow> number" where
  "nullToNumber v = (case v of None \<Rightarrow> Fin 0 | Some a \<Rightarrow> a)"

record AccountValues =
  current :: number
  original :: number

text \<open>
  An object used as a dictionary is the list of its entries, in the order of
  \<open>Object.entries\<close>; every entry is an object of its own.
\<close>

type_synonym Holdings = "(string \<times> PortfolioPosition) list"

type_synonym Accounts = "(string \<times> AccountValues) list"

record PortfolioDetails =
  accounts :: Accounts
  holdings :: Holdings

text \<open>What \<open>portfolioService.getDetails\<close> resolves to.\<close>

record PortfolioDetailsResult = PortfolioDetails +
  hasErrors :: bool

text \<open>
  The six fields that \<open>getPublic\<close> writes for a holding, and the interface
  \<open>PortfolioPublicDetails\<close>.
\<close>

record PublicHolding =
  allocationCurrent :: number
  countries :: "(string \<times> number) list"
  currency :: Currency
  name :: string
  sectors :: "(string \<times> number) list"
  "value" :: number

record PortfolioPublicDetails =
  hasDetails :: bool
  holdings :: "(string \<times> PublicHolding) list"

text \<open>The access, the subscription and the user, with the fields the handlers read.\<close>

record Access =
  userId :: string

record Subscription =
  type :: string

record UserCurrencySettings =
  currency :: Currency

record User =
  id' :: string
  subscription :: Subscription
  Settings :: "UserCurrencySettings option"

text \<open>
  The collaborators injected into the controller, and the user of the request (absent
  on a request that carries no authentication).
\<close>

record Services =
  accessService_access :: "string \<Rightarrow> Access option"
  userService_user :: "string \<Rightarrow> User option"
  userService_isRestrictedView :: "User \<Rightarrow> bool"
  configurationService_get :: "string \<Rightarrow> bool"
  exchangeRateDataService_toCurrency :: "number \<Rightarrow> Currency \<Rightarrow> Currency \<Rightarrow> number"
  portfolioService_getDetails ::
    "string option \<Rightarrow> string \<Rightarrow> string option \<Rightarrow> PortfolioDetailsResult"
  hasNotDefinedValuesInObject :: "Holdings \<Rightarrow> bool"
  request_user :: "User option"

record 'b Response =
  status :: nat
  body :: 'b

definition OK :: nat where "OK = 200"
definition ACCEPTED :: nat where "ACCEPTED = 202"
definition FORBIDDEN :: nat where "FORBIDDEN = 403"
definition NOT_FOUND :: nat where "NOT_FOUND = 404"

text \<open>\<open>export const baseCurrency = 'USD'\<close>\<close>

definition baseCurrency :: Currency where
  "baseCurrency = ''USD''"

text \<open>\<open>xs.reduce((a, b) => a + b, 0)\<close>\<close>

definition sumNumbers :: "arithmetic \<Rightarrow> number list \<Rightarrow> number" where
  "sumNumbers m xs = fold (\<lambda>b a. jsadd m a b) xs (Fin 0)"

text \<open>A header is truthy when it is present and not empty.\<close>

definition truthy :: "string option \<Rightarrow> bool" where
  "truthy header = (case header of None \<Rightarrow> False | Some s \<Rightarrow> s \<noteq> [])"

subsection \<open>\<open>getDetails\<close>\<close>

text \<open>
  The body of the restricted-view branch, lines 170 to 198, given the currency of the
  user of the request. The two totals are computed before the loops write anything.
\<close>

definition restrictedView ::
    "arithmetic \<Rightarrow> (number \<Rightarrow> Currency \<Rightarrow> Currency \<Rightarrow> number) \<Rightarrow> Currency \<Rightarrow> PortfolioDetails
       \<Rightarrow> PortfolioDetails" where
  "restrictedView m toCurrency userCurrency details =
     (let totalInvestment =
            sumNumbers m (map (\<lambda>(symbol, portfolioPosition).
              PortfolioPosition.investment portfolioPosition) (PortfolioDetails.holdings details));
          totalValue =
            sumNumbers m (map (\<lambda>(symbol, portfolioPosition).
              toCurrency
                (jsmul m (nullToNumber (PortfolioPosition.quantity portfolioPosition))
                       (PortfolioPosition.marketPrice portfolioPosition))
                (PortfolioPosition.currency portfolioPosition)
                userCurrency) (PortfolioDetails.holdings details))
      in \<lparr>accounts =
            map (\<lambda>(name, account).
                  (name, \<lparr>current = jsdiv m (current account) totalValue,
                          original = jsdiv m (original account) totalInvestment\<rparr>))
                (accounts details),
          holdings =
            map (\<lambda>(symbol, portfolioPosition).
                  (symbol, portfolioPosition
                     \<lparr>PortfolioPosition.grossPerformance := None,
                      PortfolioPosition.investment :=
                        jsdiv m (PortfolioPosition.investment portfolioPosition) totalInvestment,
                      PortfolioPosition.netPerformance := None,
                      PortfolioPosition.quantity := None,
                      PortfolioPosition.value :=
                        jsdiv m (PortfolioPosition.value portfolioPosition) totalValue\<rparr>))
                (PortfolioDetails.holdings details)\<rparr>)"

text \<open>
  The handler. \<open>this.request.user.Settings.currency\<close> is read once per holding, so a
  user without settings raises only when there is a holding.
\<close>

definition getDetails ::
    "arithmetic \<Rightarrow> Services \<Rightarrow> string option \<Rightarrow> string option \<Rightarrow> error + PortfolioDetails Response" where
  "getDetails m this impersonationId aRange =
     (case request_user this of
        None \<Rightarrow> Inl TypeError
      | Some user \<Rightarrow>
          if configurationService_get this ''ENABLE_FEATURE_SUBSCRIPTION''
               \<and> type (subscription user) = ''Basic''
          then Inr \<lparr>status = FORBIDDEN, body = \<lparr>accounts = [], holdings = []\<rparr>\<rparr>
          else
            (let result = portfolioService_getDetails this impersonationId (id' user) aRange;
                 details = \<lparr>accounts = accounts result,
                            holdings = PortfolioDetails.holdings result\<rparr>;
                 code = (if hasErrors result
                           \<or> hasNotDefinedValuesInObject this (PortfolioDetails.holdings result)
                         then ACCEPTED else OK)
             in if truthy impersonationId \<or> userService_isRestrictedView this user
                then (case Settings user of
                        None \<Rightarrow>
                          (if PortfolioDetails.holdings result = []
                           then Inr \<lparr>status = code,
                                     body = restrictedView m
                                       (exchangeRateDataService_toCurrency this) [] details\<rparr>
                           else Inl TypeError)
                      | Some settings \<Rightarrow>
                          Inr \<lparr>status = code,
                               body = restrictedView m
                                 (exchangeRateDataService_toCurrency this)
                                 (UserCurrencySettings.currency settings) details\<rparr>)
                else Inr \<lparr>status = code, body = details\<rparr>))"

subsection \<open>\<open>getPublic\<close>\<close>

text \<open>
  The body of the 404 response is \<open>{ accounts: {}, holdings: {} }\<close>, every other body
  is a \<open>PortfolioPublicDetails\<close>.
\<close>

datatype PublicBody = EmptyAccountsAndHoldings | PublicDetails PortfolioPublicDetails

text \<open>\<open>this.request.user?.Settings?.currency ?? baseCurrency\<close>\<close>

definition requestCurrency :: "Services \<Rightarrow> Currency" where
  "requestCurrency this =
     (case request_user this of
        None \<Rightarrow> baseCurrency
      | Some user \<Rightarrow>
          (case Settings user of
             None \<Rightarrow> baseCurrency
           | Some settings \<Rightarrow> UserCurrencySettings.currency settings))"

text \<open>Lines 282 to 323: the response once the access and its user are known.\<close>

definition publicDetails ::
    "arithmetic \<Rightarrow> Services \<Rightarrow> Access \<Rightarrow> User option \<Rightarrow> error + PublicBody Response" where
  "publicDetails m this access user =
     (case (if configurationService_get this ''ENABLE_FEATURE_SUBSCRIPTION''
            then (case user of
                    None \<Rightarrow> Inl TypeError
                  | Some u \<Rightarrow> Inr (type (subscription u) = ''Premium''))
            else Inr True) of
        Inl e \<Rightarrow> Inl e
      | Inr hasDetails' \<Rightarrow>
          (let holdings' =
                 PortfolioDetails.holdings
                   (portfolioService_getDetails this (Some (userId access)) (userId access) None);
               equities =
                 filter (\<lambda>(symbol, holding). PortfolioPosition.assetClass holding = ''EQUITY'')
                   holdings';
               totalValue =
                 sumNumbers m (map (\<lambda>(symbol, portfolioPosition).
                   exchangeRateDataService_toCurrency this
                     (jsmul m (nullToNumber (PortfolioPosition.quantity portfolioPosition))
                            (PortfolioPosition.marketPrice portfolioPosition))
                     (PortfolioPosition.currency portfolioPosition)
                     (requestCurrency this)) equities)
           in Inr \<lparr>status = OK,
                    body = PublicDetails
                      \<lparr>hasDetails = hasDetails',
                       holdings =
                         map (\<lambda>(symbol, portfolioPosition).
                               (symbol,
                                \<lparr>allocationCurrent =
                                    PortfolioPosition.allocationCurrent portfolioPosition,
                                  countries =
                                    (if hasDetails'
                                     then PortfolioPosition.countries portfolioPosition else []),
                                  currency = PortfolioPosition.currency portfolioPosition,
                                  name = PortfolioPosition.name portfolioPosition,
                                  sectors =
                                    (if hasDetails'
                                     then PortfolioPosition.sectors portfolioPosition else []),
                                  value =
                                    jsdiv m (PortfolioPosition.value portfolioPosition)
                                      totalValue\<rparr>))
                             equities\<rparr>\<rparr>))"

text \<open>
  The handler: the access is looked up, \<open>access.userId\<close> is read for the user lookup,
  and only then is \<open>!access\<close> tested.
\<close>

definition getPublic :: "arithmetic \<Rightarrow> Services \<Rightarrow> string \<Rightarrow> error + PublicBody Response" where
  "getPublic m this accessId =
     (let access = accessService_access this accessId
      in case access of
           None \<Rightarrow> Inl TypeError
         | Some found \<Rightarrow>
             (let user = userService_user this (userId found)
              in if access = None
                 then Inr \<lparr>status = NOT_FOUND, body = EmptyAccountsAndHoldings\<rparr>
                 else publicDetails m this found user))"

section \<open>Specification functions\<close>

text \<open>
  What the grouping and the rule are measured against: sums over the positions, and the
  views of a grouped sequence that the proofs use.
\<close>

text \<open>The investment of the first group with the given key, if there is one.\<close>

definition investmentOf :: "GroupItem list \<Rightarrow> string \<Rightarrow> number option" where
  "investmentOf gs key = map_option GroupItem.investment (find (\<lambda>item. groupKey item = key) gs)"

text \<open>The investment held in a currency: the sum of the investments of the positions in
  that currency.\<close>

definition investedIn :: "Position list \<Rightarrow> Currency \<Rightarrow> rat" where
  "investedIn ps c = (\<Sum>p\<leftarrow>ps. if Position.currency p = c then fin (Position.investment p) else 0)"

text \<open>The investment of all positions.\<close>

definition totalInvested :: "Position list \<Rightarrow> rat" where
  "totalInvested ps = (\<Sum>p\<leftarrow>ps. fin (Position.investment p))"

text \<open>The sum of the investments of the groups.\<close>

definition groupSum :: "GroupItem list \<Rightarrow> rat" where
  "groupSum gs = (\<Sum>g\<leftarrow>gs. fin (GroupItem.investment g))"

text \<open>Every group has a finite investment.\<close>

definition finiteGroups :: "GroupItem list \<Rightarrow> bool" where
  "finiteGroups gs = list_all (\<lambda>g. isFinite (GroupItem.investment g)) gs"

text \<open>One step of the grouping by currency.\<close>

definition currencyStep :: "Position \<Rightarrow> GroupItem list \<Rightarrow> GroupItem list" where
  "currencyStep p gs = fold (addToGroup p) (attributeValues ''currency'' p) gs"

text \<open>The investment of a group as a rational, zero when the key has no group.\<close>

definition heldIn :: "GroupItem list \<Rightarrow> string \<Rightarrow> rat" where
  "heldIn gs c = (case investmentOf gs c of None \<Rightarrow> 0 | Some a \<Rightarrow> fin a)"

text \<open>The distinct elements of a list, in the order of their first occurrence.\<close>

definition firstOccurrences :: "'a list \<Rightarrow> 'a list" where
  "firstOccurrences xs = fold (\<lambda>x seen. if x \<in> set seen then seen else seen @ [x]) xs []"

text \<open>
  The keys of the positions grouped by currency with the base currency pinned: the
  currencies in the order of their first occurrence, and behind them the base currency
  when no position has it.
\<close>

definition groupKeys :: "Position list \<Rightarrow> Currency \<Rightarrow> Currency list" where
  "groupKeys ps base =
     (let keys = firstOccurrences (map Position.currency ps)
      in if base \<in> set keys then keys else keys @ [base])"

text \<open>The investment of the group of a currency: the decimal sum, as a number.\<close>

definition groupInvestment :: "arithmetic \<Rightarrow> Position list \<Rightarrow> Currency \<Rightarrow> number" where
  "groupInvestment m ps c = rounded m (investedIn ps c)"

text \<open>The sum of numbers that a loop accumulates from zero, in the order of the list.\<close>

definition runningTotal :: "arithmetic \<Rightarrow> number list \<Rightarrow> number" where
  "runningTotal m xs = fold (\<lambda>x t. jsadd m t x) xs (Fin 0)"

text \<open>
  What \<open>evaluate\<close> reads of a grouped sequence, the key and the investment of each
  group, and what the grouping by currency reads of the positions.
\<close>

definition readOf :: "GroupItem list \<Rightarrow> (string \<times> number) list" where
  "readOf gs = map (\<lambda>g. (groupKey g, GroupItem.investment g)) gs"

definition readOfPositions :: "Position list \<Rightarrow> (Currency \<times> number) list" where
  "readOfPositions ps = map (\<lambda>p. (Position.currency p, Position.investment p)) ps"

text \<open>One allocation of the grouping, on what is read of the groups.\<close>

fun addToRead :: "string \<times> number \<Rightarrow> (string \<times> number) list \<Rightarrow> (string \<times> number) list" where
  "addToRead (key, amount) [] = [(key, jsadd Exact (Fin 0) amount)]"
| "addToRead (key, amount) ((k, a) # rs) =
     (if k = key then (k, jsadd Exact a amount) # rs else (k, a) # addToRead (key, amount) rs)"

text \<open>The loop body and lines 64 to 98 of \<open>evaluate\<close>, on what is read of the groups.\<close>

definition readStep ::
    "arithmetic \<Rightarrow> string \<times> number \<Rightarrow> (string \<times> number) \<times> number
       \<Rightarrow> (string \<times> number) \<times> number" where
  "readStep m item state =
     (let (maxItem, totalInvestment) = state
      in (if jsgt (snd item) (snd maxItem) then item else maxItem,
          jsadd m totalInvestment (snd item)))"

definition evaluateRead ::
    "arithmetic \<Rightarrow> (string \<times> number) list \<Rightarrow> Currency \<Rightarrow> error + Evaluation" where
  "evaluateRead m rs base =
     (case rs of
        [] \<Rightarrow> Inl TypeError
      | first # _ \<Rightarrow>
          (let (maxItem, totalInvestment) = fold (readStep m) rs (first, Fin 0);
               ratio = or_zero (jsdiv m (toNumber (map_of rs base)) totalInvestment)
           in Inr \<lparr>evaluation = evaluationText m (fst maxItem = base) ratio base,
                    value = (fst maxItem = base)\<rparr>))"

text \<open>
  The grouping by currency with the base currency pinned, on what is read of the
  positions: the allocations in input order, each sum as a number, and the pinned group
  behind them when the key has none.
\<close>

definition groupRead ::
    "arithmetic \<Rightarrow> (Currency \<times> number) list \<Rightarrow> Currency \<Rightarrow> (string \<times> number) list" where
  "groupRead m rs base =
     (let groups = map (\<lambda>(k, a). (k, asNumber m a))
                     (fold (\<lambda>(c, i). addToRead (c, jsmul Exact i (Fin 1))) rs [])
      in if map_of groups base = None then groups @ [(base, Fin 0)] else groups)"

text \<open>The sum of the investments of the holdings.\<close>

definition investmentTotal :: "Holdings \<Rightarrow> rat" where
  "investmentTotal hs = (\<Sum>(symbol, p)\<leftarrow>hs. fin (PortfolioPosition.investment p))"

section \<open>Example data\<close>

text \<open>A position with the given symbol, currency and investment.\<close>

definition examplePosition :: "string \<Rightarrow> Currency \<Rightarrow> rat \<Rightarrow> Position" where
  "examplePosition aSymbol aCurrency anInvestment =
     \<lparr>symbol = aSymbol, currency = aCurrency, assetClass = ''EQUITY'',
      quantity = Fin 1, marketPrice = Fin anInvestment, sectors = [], countries = [],
      investment = Fin anInvestment\<rparr>"

text \<open>The rule over the given positions, with no fees and no errors.\<close>

definition exampleRule :: "Position list \<Rightarrow> unit Rule" where
  "exampleRule ps =
     CurrencyClusterRiskBaseCurrencyInitialInvestment ()
       \<lparr>CurrentPositions.positions = ps, fees = Fin 0, errors = []\<rparr>"

text \<open>The two position sets of the documented evaluations.\<close>

definition majorityInBase :: "Position list" where
  "majorityInBase = [examplePosition ''A'' ''USD'' 6000, examplePosition ''B'' ''EUR'' 4000]"

definition majorityAbroad :: "Position list" where
  "majorityAbroad = [examplePosition ''A'' ''USD'' 3000, examplePosition ''B'' ''EUR'' 7000]"

text \<open>
  Two positions with the same investment, the base currency second; and two positions
  whose share of 41 in 80 is not a double.
\<close>

definition tiedAbroadFirst :: "Position list" where
  "tiedAbroadFirst = [examplePosition ''B'' ''EUR'' 5, examplePosition ''A'' ''USD'' 5]"

definition unevenShare :: "Position list" where
  "unevenShare = [examplePosition ''A'' ''USD'' 41, examplePosition ''B'' ''EUR'' 39]"

text \<open>
  Two positions whose investments cancel, with the sequence they are grouped into.
\<close>

definition cancelling :: "Position list" where
  "cancelling = [examplePosition ''A'' ''USD'' 5, examplePosition ''B'' ''EUR'' (- 5)]"

definition cancellingGroups :: "GroupItem list" where
  "cancellingGroups =
     [\<lparr>groupKey = ''USD'', investment = Fin 5, positions = [examplePosition ''A'' ''USD'' 5]\<rparr>,
      \<lparr>groupKey = ''EUR'', investment = Fin (- 5),
        positions = [examplePosition ''B'' ''EUR'' (- 5)]\<rparr>]"

text \<open>The same keys and investments as \<open>cancellingGroups\<close>, with no positions listed.\<close>

definition cancellingGroupsBare :: "GroupItem list" where
  "cancellingGroupsBare =
     [\<lparr>groupKey = ''USD'', investment = Fin 5, positions = []\<rparr>,
      \<lparr>groupKey = ''EUR'', investment = Fin (- 5), positions = []\<rparr>]"

definition settingsUSD :: Settings where
  "settingsUSD = getSettings \<lparr>UserSettings.baseCurrency = ''USD''\<rparr>"

text \<open>
  A rule object that holds another exchange rate service, positions with the same
  currencies and investments under other symbols, fees and an error; and settings that
  differ from \<open>settingsUSD\<close> in the flag.
\<close>

definition otherServiceRule :: "nat Rule" where
  "otherServiceRule =
     CurrencyClusterRiskBaseCurrencyInitialInvestment 1
       \<lparr>CurrentPositions.positions =
          [(examplePosition ''X'' ''USD'' 3000)\<lparr>Position.quantity := Fin 2\<rparr>,
           examplePosition ''Y'' ''EUR'' 7000],
        fees = Fin 12, errors = [''Z'']\<rparr>"

definition inactiveSettingsUSD :: Settings where
  "inactiveSettingsUSD = settingsUSD\<lparr>isActive := False\<rparr>"

text \<open>
  The rule objects of the two documented position sets, once with the unit service and
  once with the service 1.
\<close>

definition exampleRules :: "unit Rule list" where
  "exampleRules = [exampleRule majorityInBase, exampleRule majorityAbroad]"

definition otherServiceRules :: "nat Rule list" where
  "otherServiceRules =
     [CurrencyClusterRiskBaseCurrencyInitialInvestment 1
        \<lparr>CurrentPositions.positions = majorityInBase, fees = Fin 3, errors = []\<rparr>,
      otherServiceRule]"

text \<open>
  A grouping method that groups like the helper and, unlike it, empties the positions
  array of the rule object before it returns.
\<close>

definition clearingMethod :: "arithmetic \<Rightarrow> 'e GroupingMethod" where
  "clearingMethod m this ps attribute pinnedKey =
     (groupCurrentPositionsByAttribute m ps attribute (Some pinnedKey),
      this\<lparr>currentPositions := (currentPositions this)\<lparr>CurrentPositions.positions := []\<rparr>\<rparr>)"

text \<open>
  A variant of the currency rule whose settings are inactive, and a catalog of that
  variant followed by the currency rule, with the report of the catalog.
\<close>

definition inactiveCurrencyRule ::
    "arithmetic \<Rightarrow> 'e Rule
       \<Rightarrow> ('a UserSettings_scheme, \<lparr>Settings.baseCurrency :: Currency\<rparr>) RuleInterface" where
  "inactiveCurrencyRule m this =
     (currencyRule m this)
       \<lparr>getName := ''Inactive'',
        ruleGetSettings := (\<lambda>aUserSettings. (getSettings aUserSettings)\<lparr>isActive := False\<rparr>)\<rparr>"

definition exampleCatalog ::
    "(UserSettings, \<lparr>Settings.baseCurrency :: Currency\<rparr>) RuleInterface list" where
  "exampleCatalog =
     [inactiveCurrencyRule Binary64 (exampleRule majorityInBase),
      currencyRule Binary64 (exampleRule majorityAbroad)]"

definition exampleReport :: "PortfolioReportRule list" where
  "exampleReport =
     [\<lparr>evaluation =
         ''The major part of your initial investment is not in your base currency (30.0% in USD)'',
       value = False,
       PortfolioReportRule.name = ''Initial Investment: Base Currency''\<rparr>]"

text \<open>
  Two holdings with the investments 600 and 200, a premium user, and collaborators that
  know the access \<open>known\<close> only.
\<close>

definition exampleHolding :: "string \<Rightarrow> rat \<Rightarrow> PortfolioPosition" where
  "exampleHolding aName anInvestment =
     \<lparr>PortfolioPosition.allocationCurrent = Fin (1 / 2),
      PortfolioPosition.assetClass = ''EQUITY'',
      PortfolioPosition.countries = [],
      PortfolioPosition.currency = ''USD'',
      PortfolioPosition.grossPerformance = Some (Fin 10),
      PortfolioPosition.investment = Fin anInvestment,
      PortfolioPosition.marketPrice = Fin 100,
      PortfolioPosition.name = aName,
      PortfolioPosition.netPerformance = Some (Fin 9),
      PortfolioPosition.quantity = Some (Fin 5),
      PortfolioPosition.sectors = [],
      PortfolioPosition.value = Fin 500\<rparr>"

definition exampleDetails :: PortfolioDetailsResult where
  "exampleDetails =
     \<lparr>accounts = [(''Broker'', \<lparr>current = Fin 1000, original = Fin 800\<rparr>)],
      PortfolioDetails.holdings =
        [(''AAA'', exampleHolding ''Alpha'' 600), (''BBB'', exampleHolding ''Beta'' 200)],
      hasErrors = False\<rparr>"

definition exampleUser :: User where
  "exampleUser =
     \<lparr>id' = ''u1'', subscription = \<lparr>type = ''Premium''\<rparr>,
      Settings = Some \<lparr>UserCurrencySettings.currency = ''USD''\<rparr>\<rparr>"

definition exampleServices :: Services where
  "exampleServices =
     \<lparr>accessService_access =
        (\<lambda>accessId. if accessId = ''known'' then Some \<lparr>userId = ''u1''\<rparr> else None),
      userService_user = (\<lambda>anId. if anId = ''u1'' then Some exampleUser else None),
      userService_isRestrictedView = (\<lambda>user. True),
      configurationService_get = (\<lambda>key. False),
      exchangeRateDataService_toCurrency = (\<lambda>amount fromCurrency toCurrency. amount),
      portfolioService_getDetails = (\<lambda>impersonationId anId aRange. exampleDetails),
      hasNotDefinedValuesInObject = (\<lambda>anObject. False),
      request_user = Some exampleUser\<rparr>"

section \<open>Arithmetic of numbers\<close>

subsection \<open>Rounding\<close>

text \<open>
  The doubles nearest to a tenth and to a third, and the quotient and the percentage of
  41 in 80: the quotient is not a double, and its product with 100 is below 51.25.
\<close>

lemma round64_examples:
  "round64 (1 / 10) = Fin (3602879701896397 / 36028797018963968)
   \<and> round64 (1 / 3) = Fin (6004799503160661 / 18014398509481984)
   \<and> jsmul Binary64 (jsdiv Binary64 (Fin 41) (Fin 80)) (Fin 100)
       = Fin (7212796278210559 / 140737488355328)"
  by code_simp

text \<open>From \<open>2^1024\<close> on, a magnitude rounds to an infinity: the addition overflows.\<close>

lemma binade_ge1_lower: "0 < b \<Longrightarrow> b * 2 ^ k \<le> a \<Longrightarrow> k \<le> binade_ge1 a b"
proof (induction k arbitrary: b)
  case 0
  show ?case by simp
next
  case (Suc k)
  from Suc.prems have le: "(b * 2) * 2 ^ k \<le> a"
    by (simp add: mult.assoc)
  have "(b * 2) * 1 \<le> (b * 2) * 2 ^ k"
    using Suc.prems(1) by (intro mult_left_mono) simp_all
  with le have "b * 2 \<le> a"
    by simp
  with Suc.prems(1) have "binade_ge1 a b = Suc (binade_ge1 a (b * 2))"
    by (subst binade_ge1.simps) simp
  moreover have "k \<le> binade_ge1 a (b * 2)"
    using Suc.IH [of "b * 2"] Suc.prems(1) le by simp
  ultimately show ?case by simp
qed

lemma round64_overflow:
  assumes "2 ^ 1024 \<le> \<bar>q\<bar>"
  shows "round64 q = signedInf (q < 0)"
proof -
  obtain a b where ab: "quotient_of \<bar>q\<bar> = (a, b)"
    by (cases "quotient_of \<bar>q\<bar>")
  then have b: "0 < b" and q: "\<bar>q\<bar> = of_int a / of_int b"
    using quotient_of_denom_pos quotient_of_div by blast+
  from assms q b have "of_int b * 2 ^ 1024 \<le> (of_int a :: rat)"
    by (simp add: pos_le_divide_eq mult.commute)
  then have "(of_int (b * 2 ^ 1024) :: rat) \<le> of_int a"
    by simp
  then have le: "b * 2 ^ 1024 \<le> a"
    by (simp only: of_int_le_iff)
  from binade_ge1_lower [OF b le] have e: "1024 \<le> binade_ge1 a b" .
  have "b * 1 \<le> b * 2 ^ 1024"
    using b by (intro mult_left_mono) simp_all
  with le have ba: "b \<le> a"
    by simp
  have nz: "q \<noteq> 0"
    using assms by auto
  from e have "1023 < max (int (binade_ge1 a b)) (- 1022)"
    by simp
  with ba nz show ?thesis
    by (simp add: round64_def ab Let_def)
qed

lemma jsadd_overflows: "jsadd Binary64 (Fin (2 ^ 1023)) (Fin (2 ^ 1023)) = PosInf"
proof -
  have "(2 :: rat) ^ 1023 + 2 ^ 1023 = 2 ^ 1024"
    by simp
  then show ?thesis
    by (simp add: round64_overflow signedInf_def del: power_numeral)
qed

subsection \<open>Special values\<close>

lemma or_zero_not_NaN: "or_zero a \<noteq> NaN"
  by (simp add: or_zero_def)

lemma round64_not_NaN: "round64 q \<noteq> NaN"
  by (simp add: round64_def signedInf_def Let_def split: prod.splits)

lemma rounded_not_NaN: "rounded m q \<noteq> NaN"
  by (cases m) (simp_all add: round64_not_NaN)

lemma rounded_zero: "rounded m 0 = Fin 0"
  by (cases m) (simp_all add: round64_def)

lemma asNumber_not_NaN: "a \<noteq> NaN \<Longrightarrow> asNumber m a \<noteq> NaN"
  by (cases a) (simp_all add: rounded_not_NaN)

lemma jsmul_not_NaN: "a \<noteq> NaN \<Longrightarrow> q \<noteq> 0 \<Longrightarrow> jsmul m a (Fin q) \<noteq> NaN"
  by (cases a) (simp_all add: signedInf_def rounded_not_NaN)

subsection \<open>The order of the numbers\<close>

lemma jsgt_irrefl: "\<not> jsgt a a"
  by (cases a) simp_all

lemma jsgt_asym: "jsgt a b \<Longrightarrow> \<not> jsgt b a"
  by (cases a; cases b) simp_all

lemma jsgt_trans: "jsgt a b \<Longrightarrow> jsgt b c \<Longrightarrow> jsgt a c"
  by (cases a; cases b; cases c) simp_all

lemma jsgt_le_trans: "jsgt a b \<Longrightarrow> \<not> jsgt c b \<Longrightarrow> c \<noteq> NaN \<Longrightarrow> jsgt a c"
  by (cases a; cases b; cases c) simp_all

lemma jsle_gt_trans: "\<not> jsgt a b \<Longrightarrow> \<not> jsgt b c \<Longrightarrow> b \<noteq> NaN \<Longrightarrow> \<not> jsgt a c"
  by (cases a; cases b; cases c) simp_all

subsection \<open>The characters of a formatted number\<close>

lemma digit_is_digit: "digit d \<in> set ''0123456789''"
  unfolding digit_def by (rule nth_mem) simp

lemma digits_are_digits: "set (digits n) \<subseteq> set ''0123456789''"
proof (induction n rule: digits.induct)
  case (1 n)
  show ?case
  proof (cases "n < 10")
    case True
    then show ?thesis
      using digit_is_digit [of n] by (subst digits.simps) simp
  next
    case False
    then show ?thesis
      using 1 digit_is_digit [of "n mod 10"] by (subst digits.simps) simp
  qed
qed

lemma digits_no_N: "CHR ''N'' \<notin> set (digits n)"
  using digits_are_digits [of n] by auto

lemma formatDigits_no_N:
  "CHR ''N'' \<notin> set m \<Longrightarrow> CHR ''N'' \<notin> set (formatDigits m e p)"
  using digits_no_N [of "nat \<bar>e\<bar>"]
  by (auto simp: formatDigits_def dest: in_set_takeD in_set_dropD)

lemma toPrecision_no_N: "x \<noteq> NaN \<Longrightarrow> CHR ''N'' \<notin> set (toPrecision x p)"
proof (cases x)
  case (Fin q)
  show ?thesis
  proof (cases "q = 0")
    case True
    then show ?thesis
      using formatDigits_no_N [of "replicate p (CHR ''0'')" 0 p]
      by (simp add: toPrecision_def Fin)
  next
    case False
    obtain n e where ne: "significand \<bar>q\<bar> p = (n, e)"
      by (cases "significand \<bar>q\<bar> p")
    have "CHR ''N'' \<notin> set (formatDigits (digits n) e p)"
      by (rule formatDigits_no_N) (rule digits_no_N)
    with False ne show ?thesis
      by (simp add: toPrecision_def Fin)
  qed
qed (simp_all add: toPrecision_def)

section \<open>Properties of the grouping helper\<close>

lemma groupKey_addToGroup:
  "map groupKey (addToGroup p (key, weight) gs) =
     (if key \<in> set (map groupKey gs) then map groupKey gs else map groupKey gs @ [key])"
  by (induction gs) auto

lemma investmentOf_addToGroup:
  "investmentOf (addToGroup p (key, weight) gs) c =
     (if c = key
      then Some (jsadd Exact (case investmentOf gs key of None \<Rightarrow> Fin 0 | Some a \<Rightarrow> a)
                       (jsmul Exact (Position.investment p) weight))
      else investmentOf gs c)"
  by (induction gs) (auto simp: investmentOf_def)

lemma set_groupKey_fold_addToGroup:
  "set (map groupKey (fold (addToGroup p) kws gs)) = set (map groupKey gs) \<union> fst ` set kws"
proof (induction kws arbitrary: gs)
  case Nil
  then show ?case by simp
next
  case (Cons kw kws)
  obtain key weight where kw: "kw = (key, weight)" by (cases kw)
  have "set (map groupKey (addToGroup p (key, weight) gs)) = insert key (set (map groupKey gs))"
    by (simp only: groupKey_addToGroup) auto
  with Cons.IH [of "addToGroup p (key, weight) gs"] kw show ?case by auto
qed

lemma distinct_fold_addToGroup:
  "distinct (map groupKey gs) \<Longrightarrow> distinct (map groupKey (fold (addToGroup p) kws gs))"
proof (induction kws arbitrary: gs)
  case Nil
  then show ?case by simp
next
  case (Cons kw kws)
  obtain key weight where kw: "kw = (key, weight)" by (cases kw)
  have "distinct (map groupKey (addToGroup p (key, weight) gs))"
    using Cons.prems by (simp only: groupKey_addToGroup) auto
  with Cons.IH [of "addToGroup p (key, weight) gs"] kw show ?case by simp
qed

lemma set_groupKey_fold_positions:
  "set (map groupKey (fold (\<lambda>p gs. fold (addToGroup p) (attributeValues attribute p) gs) ps gs)) =
     set (map groupKey gs) \<union> (\<Union>p\<in>set ps. fst ` set (attributeValues attribute p))"
  by (induction ps arbitrary: gs) (auto simp: set_groupKey_fold_addToGroup simp del: set_map)

lemma distinct_fold_positions:
  "distinct (map groupKey gs) \<Longrightarrow>
   distinct (map groupKey (fold (\<lambda>p gs. fold (addToGroup p) (attributeValues attribute p) gs) ps gs))"
  by (induction ps arbitrary: gs) (simp_all add: distinct_fold_addToGroup)

lemma set_groupKey_groupPositions:
  "set (map groupKey (groupPositions ps attribute)) =
     (\<Union>p\<in>set ps. fst ` set (attributeValues attribute p))"
  by (simp add: groupPositions_def set_groupKey_fold_positions del: set_map)

lemma distinct_groupPositions: "distinct (map groupKey (groupPositions ps attribute))"
  by (simp add: groupPositions_def distinct_fold_positions)

lemma find_None_groupKey:
  "(find (\<lambda>item. groupKey item = key) gs = None) = (key \<notin> set (map groupKey gs))"
  by (auto simp: find_None_iff)

lemma isFinite_iff: "isFinite a = (\<exists>q. a = Fin q)"
  by (cases a) simp_all

lemma currencyStep_eq: "currencyStep p gs = addToGroup p (Position.currency p, Fin 1) gs"
  by (simp add: currencyStep_def attributeValues_def)

lemma finiteGroups_addToGroup:
  "finiteGroups gs \<Longrightarrow> isFinite (jsmul Exact (Position.investment p) weight) \<Longrightarrow>
   finiteGroups (addToGroup p (key, weight) gs)"
  by (induction gs) (auto simp: finiteGroups_def isFinite_iff)

lemma groupSum_addToGroup:
  "finiteGroups gs \<Longrightarrow> isFinite (jsmul Exact (Position.investment p) weight) \<Longrightarrow>
   groupSum (addToGroup p (key, weight) gs) =
     groupSum gs + fin (jsmul Exact (Position.investment p) weight)"
  by (induction gs) (auto simp: finiteGroups_def groupSum_def isFinite_iff)

lemma investmentOf_finite:
  "finiteGroups gs \<Longrightarrow> investmentOf gs c = Some a \<Longrightarrow> isFinite a"
  by (induction gs) (auto simp: finiteGroups_def investmentOf_def split: if_splits)

lemma investedIn_Cons:
  "investedIn (p # ps) c =
     (if Position.currency p = c then fin (Position.investment p) else 0) + investedIn ps c"
  by (simp add: investedIn_def)

lemma investedIn_absent: "c \<notin> Position.currency ` set ps \<Longrightarrow> investedIn ps c = 0"
  by (induction ps) (auto simp: investedIn_def)

lemma fold_currencyStep:
  assumes "list_all (\<lambda>p. isFinite (Position.investment p)) ps" and "finiteGroups gs"
  shows "finiteGroups (fold currencyStep ps gs)
       \<and> groupSum (fold currencyStep ps gs) = groupSum gs + totalInvested ps
       \<and> (\<forall>c. investmentOf (fold currencyStep ps gs) c =
              (if c \<in> Position.currency ` set ps
               then Some (Fin (heldIn gs c + investedIn ps c))
               else investmentOf gs c))"
  using assms
proof (induction ps arbitrary: gs)
  case Nil
  then show ?case by (simp add: totalInvested_def)
next
  case (Cons p ps)
  let ?gs = "addToGroup p (Position.currency p, Fin 1) gs"
  from Cons.prems obtain q where q: "Position.investment p = Fin q"
    by (auto simp: isFinite_iff)
  have fin': "finiteGroups ?gs"
    using Cons.prems q by (intro finiteGroups_addToGroup) simp_all
  have sum': "groupSum ?gs = groupSum gs + q"
    using Cons.prems q by (subst groupSum_addToGroup) simp_all
  have held: "heldIn ?gs c = heldIn gs c + (if c = Position.currency p then q else 0)" for c
  proof (cases "investmentOf gs (Position.currency p)")
    case None
    then show ?thesis by (simp add: heldIn_def investmentOf_addToGroup q)
  next
    case (Some a)
    with Cons.prems(2) obtain r where "a = Fin r"
      using investmentOf_finite isFinite_iff by blast
    with Some show ?thesis by (simp add: heldIn_def investmentOf_addToGroup q)
  qed
  have inv': "investmentOf ?gs c =
      (if c = Position.currency p then Some (Fin (heldIn gs c + q)) else investmentOf gs c)" for c
  proof (cases "investmentOf gs (Position.currency p)")
    case None
    then show ?thesis by (simp add: heldIn_def investmentOf_addToGroup q)
  next
    case (Some a)
    with Cons.prems(2) obtain r where "a = Fin r"
      using investmentOf_finite isFinite_iff by blast
    with Some show ?thesis by (simp add: heldIn_def investmentOf_addToGroup q)
  qed
  from Cons.prems have ps: "list_all (\<lambda>p. isFinite (Position.investment p)) ps" by simp
  note IH = Cons.IH [OF ps fin']
  have step: "fold currencyStep (p # ps) gs = fold currencyStep ps ?gs"
    by (simp only: fold_simps comp_apply currencyStep_eq)
  have 1: "finiteGroups (fold currencyStep (p # ps) gs)"
    unfolding step using IH by blast
  have 2: "groupSum (fold currencyStep (p # ps) gs) = groupSum gs + totalInvested (p # ps)"
    unfolding step using IH sum' q by (simp add: totalInvested_def)
  have 3: "investmentOf (fold currencyStep (p # ps) gs) c =
              (if c \<in> Position.currency ` set (p # ps)
               then Some (Fin (heldIn gs c + investedIn (p # ps) c))
               else investmentOf gs c)" for c
    unfolding step using IH inv' [of c] held [of c] q
    by (auto simp: investedIn_Cons investedIn_absent)
  from 1 2 3 show ?case by blast
qed

lemma groupPositions_currency: "groupPositions ps ''currency'' = fold currencyStep ps []"
proof -
  have "currencyStep = (\<lambda>p gs. fold (addToGroup p) (attributeValues ''currency'' p) gs)"
    by (intro ext) (simp add: currencyStep_def)
  then show ?thesis by (simp add: groupPositions_def)
qed

lemma find_groupKey_distinct:
  "distinct (map groupKey gs) \<Longrightarrow> m \<in> set gs \<Longrightarrow>
   find (\<lambda>item. groupKey item = groupKey m) gs = Some m"
  by (induction gs) auto

lemma groupKey_set_currency:
  "set (map groupKey (groupPositions ps ''currency'')) = Position.currency ` set ps"
  by (auto simp: set_groupKey_groupPositions attributeValues_def simp del: set_map)

lemma fold_currencyStep_Cons:
  "fold currencyStep (p # ps) gs =
     fold currencyStep ps (addToGroup p (Position.currency p, Fin 1) gs)"
  by (simp only: fold_simps comp_apply currencyStep_eq)

lemma groupKey_fold_currencyStep:
  "map groupKey (fold currencyStep ps gs) =
     fold (\<lambda>x seen. if x \<in> set seen then seen else seen @ [x])
       (map Position.currency ps) (map groupKey gs)"
proof (induction ps arbitrary: gs)
  case Nil
  then show ?case by simp
next
  case (Cons p ps)
  show ?case
    unfolding fold_currencyStep_Cons Cons.IH
    by (simp only: groupKey_addToGroup list.map fold_simps comp_apply)
qed

lemma groupKey_groupPositions:
  "map groupKey (groupPositions ps ''currency'') = firstOccurrences (map Position.currency ps)"
  by (simp add: groupPositions_currency groupKey_fold_currencyStep firstOccurrences_def)

lemma readOf_groupPositions:
  assumes "\<forall>p\<in>set ps. isFinite (Position.investment p)"
  shows "readOf (groupPositions ps ''currency'') =
           map (\<lambda>c. (c, Fin (investedIn ps c))) (firstOccurrences (map Position.currency ps))"
proof -
  let ?gs = "groupPositions ps ''currency''"
  from assms have ps: "list_all (\<lambda>p. isFinite (Position.investment p)) ps"
    by (simp add: list_all_iff)
  have empty: "finiteGroups []"
    by (simp add: finiteGroups_def)
  note facts = fold_currencyStep [OF ps empty, folded groupPositions_currency]
  have inv: "investmentOf ?gs c =
      (if c \<in> Position.currency ` set ps then Some (Fin (investedIn ps c)) else None)" for c
    using facts by (simp add: heldIn_def investmentOf_def)
  have "GroupItem.investment g = Fin (investedIn ps (groupKey g))" if g: "g \<in> set ?gs" for g
  proof -
    from g have "groupKey g \<in> Position.currency ` set ps"
      using groupKey_set_currency [of ps] by auto
    then have "investmentOf ?gs (groupKey g) = Some (Fin (investedIn ps (groupKey g)))"
      by (simp add: inv)
    moreover have "investmentOf ?gs (groupKey g) = Some (GroupItem.investment g)"
      using find_groupKey_distinct [OF distinct_groupPositions g] by (simp add: investmentOf_def)
    ultimately show ?thesis by simp
  qed
  then have "readOf ?gs = map (\<lambda>g. (groupKey g, Fin (investedIn ps (groupKey g)))) ?gs"
    by (simp add: readOf_def)
  also have "\<dots> = map (\<lambda>c. (c, Fin (investedIn ps c))) (map groupKey ?gs)"
    by (simp add: comp_def)
  finally show ?thesis
    by (simp only: groupKey_groupPositions)
qed

lemma readOf_asNumbers:
  "readOf (asNumbers m gs) = map (\<lambda>(k, a). (k, asNumber m a)) (readOf gs)"
  by (simp add: readOf_def asNumbers_def)

lemma groupKey_asNumbers: "map groupKey (asNumbers m gs) = map groupKey gs"
  by (simp add: asNumbers_def)

lemma groupCurrentPositionsByAttribute_pinned:
  "groupCurrentPositionsByAttribute m ps attribute (Some key) =
     (if key \<in> set (map groupKey (groupPositions ps attribute))
      then asNumbers m (groupPositions ps attribute)
      else asNumbers m (groupPositions ps attribute)
             @ [\<lparr>groupKey = key, investment = Fin 0, positions = []\<rparr>])"
  using groupKey_asNumbers [of m "groupPositions ps attribute"]
  by (simp add: groupCurrentPositionsByAttribute_def find_None_groupKey del: set_map)

lemma groupCurrentPositionsByAttribute_not_empty:
  "groupCurrentPositionsByAttribute m ps attribute (Some key) \<noteq> []"
proof (cases "key \<in> set (map groupKey (groupPositions ps attribute))")
  case True
  then have "groupPositions ps attribute \<noteq> []"
    by auto
  with True show ?thesis
    by (simp add: groupCurrentPositionsByAttribute_pinned asNumbers_def del: set_map)
next
  case False
  then show ?thesis
    by (simp add: groupCurrentPositionsByAttribute_pinned del: set_map)
qed

lemma readOf_grouped:
  assumes "\<forall>p\<in>set ps. isFinite (Position.investment p)"
  shows "readOf (groupCurrentPositionsByAttribute m ps ''currency'' (Some base)) =
           map (\<lambda>c. (c, groupInvestment m ps c)) (groupKeys ps base)"
proof -
  let ?keys = "firstOccurrences (map Position.currency ps)"
  have numbers: "readOf (asNumbers m (groupPositions ps ''currency'')) =
      map (\<lambda>c. (c, groupInvestment m ps c)) ?keys"
    by (simp add: readOf_asNumbers readOf_groupPositions [OF assms] groupInvestment_def comp_def)
  show ?thesis
  proof (cases "base \<in> set ?keys")
    case True
    then show ?thesis
      using numbers
      by (simp add: groupCurrentPositionsByAttribute_pinned groupKey_groupPositions
            groupKeys_def del: set_map)
  next
    case False
    then have "base \<notin> Position.currency ` set ps"
      using groupKey_set_currency [of ps] by (simp add: groupKey_groupPositions)
    then have "groupInvestment m ps base = Fin 0"
      by (simp add: groupInvestment_def investedIn_absent rounded_zero)
    with False show ?thesis
      using numbers
      by (simp add: groupCurrentPositionsByAttribute_pinned groupKey_groupPositions
            groupKeys_def readOf_def del: set_map)
  qed
qed

section \<open>Properties of the loop\<close>

lemma forEach_total:
  "snd (fold (forEachStep m) gs (cur, t)) =
     fold (\<lambda>x t. jsadd m t x) (map GroupItem.investment gs) t"
  by (induction gs arbitrary: cur t) (simp_all add: forEachStep_def)

lemma forEach_Cons:
  "fold (forEachStep m) (g # gs) (cur, t) =
     fold (forEachStep m) gs
       (if jsgt (GroupItem.investment g) (GroupItem.investment cur) then g else cur,
        jsadd m t (GroupItem.investment g))"
  by (simp add: forEachStep_def)

text \<open>
  The loop keeps the first group with the largest investment: either the group it starts
  from, which no group exceeds, or a group that exceeds the start and every group before
  it, and that no group exceeds.
\<close>

lemma forEach_first_largest:
  assumes "\<forall>g\<in>set (cur # gs). GroupItem.investment g \<noteq> NaN"
  shows "(fst (fold (forEachStep m) gs (cur, t)) = cur
            \<and> (\<forall>g\<in>set gs. \<not> jsgt (GroupItem.investment g) (GroupItem.investment cur)))
       \<or> (\<exists>pre post. gs = pre @ fst (fold (forEachStep m) gs (cur, t)) # post
            \<and> jsgt (GroupItem.investment (fst (fold (forEachStep m) gs (cur, t))))
                 (GroupItem.investment cur)
            \<and> (\<forall>g\<in>set pre. jsgt (GroupItem.investment (fst (fold (forEachStep m) gs (cur, t))))
                 (GroupItem.investment g))
            \<and> (\<forall>g\<in>set gs. \<not> jsgt (GroupItem.investment g)
                 (GroupItem.investment (fst (fold (forEachStep m) gs (cur, t))))))"
  using assms
proof (induction gs arbitrary: cur t)
  case Nil
  then show ?case by simp
next
  case (Cons g gs)
  define cur' where "cur' = (if jsgt (GroupItem.investment g) (GroupItem.investment cur) then g else cur)"
  define mx where "mx = fst (fold (forEachStep m) gs (cur', jsadd m t (GroupItem.investment g)))"
  have step: "fst (fold (forEachStep m) (g # gs) (cur, t)) = mx"
    by (simp only: forEach_Cons mx_def cur'_def)
  from Cons.prems have nan: "GroupItem.investment cur \<noteq> NaN" "GroupItem.investment g \<noteq> NaN"
    and rest: "\<forall>x\<in>set gs. GroupItem.investment x \<noteq> NaN"
    by simp_all
  have "\<forall>x\<in>set (cur' # gs). GroupItem.investment x \<noteq> NaN"
    using nan rest by (simp add: cur'_def)
  from Cons.IH [OF this, of "jsadd m t (GroupItem.investment g)", folded mx_def]
  consider
    (kept) "mx = cur'" "\<forall>x\<in>set gs. \<not> jsgt (GroupItem.investment x) (GroupItem.investment cur')"
  | (later) pre post where "gs = pre @ mx # post"
      "jsgt (GroupItem.investment mx) (GroupItem.investment cur')"
      "\<forall>x\<in>set pre. jsgt (GroupItem.investment mx) (GroupItem.investment x)"
      "\<forall>x\<in>set gs. \<not> jsgt (GroupItem.investment x) (GroupItem.investment mx)"
    by blast
  then show ?case
  proof cases
    case kept
    show ?thesis
    proof (cases "jsgt (GroupItem.investment g) (GroupItem.investment cur)")
      case True
      with kept have "mx = g" by (simp add: cur'_def)
      moreover have "\<forall>x\<in>set (g # gs). \<not> jsgt (GroupItem.investment x) (GroupItem.investment g)"
        using kept True by (simp add: cur'_def jsgt_irrefl)
      ultimately have "g # gs = [] @ mx # gs
          \<and> jsgt (GroupItem.investment mx) (GroupItem.investment cur)
          \<and> (\<forall>x\<in>set []. jsgt (GroupItem.investment mx) (GroupItem.investment x))
          \<and> (\<forall>x\<in>set (g # gs). \<not> jsgt (GroupItem.investment x) (GroupItem.investment mx))"
        using True by simp
      then show ?thesis unfolding step by blast
    next
      case False
      with kept have "mx = cur"
        and "\<forall>x\<in>set (g # gs). \<not> jsgt (GroupItem.investment x) (GroupItem.investment cur)"
        by (simp_all add: cur'_def)
      then show ?thesis unfolding step by blast
    qed
  next
    case later
    have over_cur: "jsgt (GroupItem.investment mx) (GroupItem.investment cur)"
      and over_g: "jsgt (GroupItem.investment mx) (GroupItem.investment g)"
    proof -
      show "jsgt (GroupItem.investment mx) (GroupItem.investment cur)"
        using later(2) nan by (auto simp: cur'_def intro: jsgt_trans split: if_splits)
      show "jsgt (GroupItem.investment mx) (GroupItem.investment g)"
        using later(2) nan by (auto simp: cur'_def intro: jsgt_le_trans split: if_splits)
    qed
    have "g # gs = (g # pre) @ mx # post"
      using later(1) by simp
    moreover have "\<forall>x\<in>set (g # pre). jsgt (GroupItem.investment mx) (GroupItem.investment x)"
      using later(3) over_g by simp
    moreover have "\<forall>x\<in>set (g # gs). \<not> jsgt (GroupItem.investment x) (GroupItem.investment mx)"
      using later(4) over_g by (simp add: jsgt_asym)
    ultimately show ?thesis unfolding step using over_cur by blast
  qed
qed

lemma evaluateGrouped_Cons:
  "evaluateGrouped m (first # rest) s =
     (let inBase = (groupKey (fst (fold (forEachStep m) (first # rest) (first, Fin 0)))
                      = Settings.baseCurrency s)
      in Inr \<lparr>evaluation =
                evaluationText m inBase
                  (baseCurrencyInvestmentRatio m (first # rest)
                     (snd (fold (forEachStep m) (first # rest) (first, Fin 0)))
                     (Settings.baseCurrency s))
                  (Settings.baseCurrency s),
              value = inBase\<rparr>)"
  by (simp add: evaluateGrouped_def Let_def split: prod.splits)

lemma evaluate_fst:
  "fst (evaluate m this ruleSettings) =
     evaluateGrouped m
       (groupCurrentPositionsByAttribute m (CurrentPositions.positions (currentPositions this))
          ''currency'' (Some (Settings.baseCurrency ruleSettings)))
       ruleSettings"
  by (simp add: evaluate_def evaluateWith_def groupingMethod_def)

lemma find_readOf:
  "map_option GroupItem.investment (find (\<lambda>item. groupKey item = b) gs) = map_of (readOf gs) b"
  by (induction gs) (simp_all add: readOf_def)

lemma map_of_keys: "b \<in> set ks \<Longrightarrow> map_of (map (\<lambda>k. (k, f k)) ks) b = Some (f b)"
  by (induction ks) auto

lemma base_in_groupKeys: "base \<in> set (groupKeys ps base)"
  by (simp add: groupKeys_def Let_def)

text \<open>
  Lines 64 to 98 on a grouped sequence without \<open>NaN\<close>: the verdict is about the first
  group with the largest investment.
\<close>

lemma evaluateGrouped_first_largest:
  assumes nan: "\<forall>g\<in>set gs. GroupItem.investment g \<noteq> NaN" and nonempty: "gs \<noteq> []"
  shows "\<exists>pre mx post. gs = pre @ mx # post
           \<and> (\<forall>g\<in>set pre. jsgt (GroupItem.investment mx) (GroupItem.investment g))
           \<and> (\<forall>g\<in>set gs. \<not> jsgt (GroupItem.investment g) (GroupItem.investment mx))
           \<and> evaluateGrouped m gs s =
               Inr \<lparr>evaluation =
                      evaluationText m (groupKey mx = Settings.baseCurrency s)
                        (or_zero (jsdiv m (toNumber (map_of (readOf gs) (Settings.baseCurrency s)))
                           (runningTotal m (map GroupItem.investment gs))))
                        (Settings.baseCurrency s),
                    value = (groupKey mx = Settings.baseCurrency s)\<rparr>"
proof -
  from nonempty obtain first rest where cons: "gs = first # rest"
    by (cases gs) auto
  define mx where "mx = fst (fold (forEachStep m) gs (first, Fin 0))"
  have start: "fold (forEachStep m) gs (first, Fin 0) =
      fold (forEachStep m) rest (first, jsadd m (Fin 0) (GroupItem.investment first))"
    unfolding cons by (simp only: forEach_Cons jsgt_irrefl if_False)
  have mx: "mx = fst (fold (forEachStep m) rest
      (first, jsadd m (Fin 0) (GroupItem.investment first)))"
    by (simp only: mx_def start)
  have "\<forall>g\<in>set (first # rest). GroupItem.investment g \<noteq> NaN"
    using nan cons by simp
  from forEach_first_largest [OF this, of m "jsadd m (Fin 0) (GroupItem.investment first)",
    folded mx]
  consider
    (kept) "mx = first"
      "\<forall>g\<in>set rest. \<not> jsgt (GroupItem.investment g) (GroupItem.investment first)"
  | (later) pre post where "rest = pre @ mx # post"
      "jsgt (GroupItem.investment mx) (GroupItem.investment first)"
      "\<forall>g\<in>set pre. jsgt (GroupItem.investment mx) (GroupItem.investment g)"
      "\<forall>g\<in>set rest. \<not> jsgt (GroupItem.investment g) (GroupItem.investment mx)"
    by blast
  then have place: "\<exists>pre post. gs = pre @ mx # post
      \<and> (\<forall>g\<in>set pre. jsgt (GroupItem.investment mx) (GroupItem.investment g))
      \<and> (\<forall>g\<in>set gs. \<not> jsgt (GroupItem.investment g) (GroupItem.investment mx))"
  proof cases
    case kept
    then have "gs = [] @ mx # rest
        \<and> (\<forall>g\<in>set []. jsgt (GroupItem.investment mx) (GroupItem.investment g))
        \<and> (\<forall>g\<in>set gs. \<not> jsgt (GroupItem.investment g) (GroupItem.investment mx))"
      by (simp add: cons jsgt_irrefl)
    then show ?thesis by blast
  next
    case later
    then have "gs = (first # pre) @ mx # post
        \<and> (\<forall>g\<in>set (first # pre). jsgt (GroupItem.investment mx) (GroupItem.investment g))
        \<and> (\<forall>g\<in>set gs. \<not> jsgt (GroupItem.investment g) (GroupItem.investment mx))"
      by (simp add: cons jsgt_asym)
    then show ?thesis by blast
  qed
  have total: "snd (fold (forEachStep m) gs (first, Fin 0)) =
      runningTotal m (map GroupItem.investment gs)"
    by (simp add: forEach_total runningTotal_def)
  have ratio: "baseCurrencyInvestmentRatio m gs t (Settings.baseCurrency s) =
      or_zero (jsdiv m (toNumber (map_of (readOf gs) (Settings.baseCurrency s))) t)" for t
    by (simp only: baseCurrencyInvestmentRatio_def Let_def find_readOf)
  have "evaluateGrouped m (first # rest) s =
      Inr \<lparr>evaluation =
             evaluationText m (groupKey mx = Settings.baseCurrency s)
               (or_zero (jsdiv m (toNumber (map_of (readOf gs) (Settings.baseCurrency s)))
                  (runningTotal m (map GroupItem.investment gs))))
               (Settings.baseCurrency s),
           value = (groupKey mx = Settings.baseCurrency s)\<rparr>"
    unfolding evaluateGrouped_Cons Let_def
    by (simp only: cons [symmetric] mx_def [symmetric] total ratio)
  from this [folded cons] place show ?thesis by blast
qed

section \<open>The two documented evaluations\<close>

text \<open>
  Claim C2. With the positions A (6000 in USD) and B (4000 in EUR) and the base currency
  USD, \<open>evaluate\<close> returns the verdict true and reports 60.0%; with A (3000 in USD) and
  B (7000 in EUR) it returns the verdict false and reports 30.0%.
\<close>

theorem evaluate_documented_examples:
  "fst (evaluate Binary64 (exampleRule majorityInBase) settingsUSD)
     = Inr \<lparr>evaluation =
              ''The major part of your initial investment is in your base currency (60.0% in USD)'',
            value = True\<rparr>
   \<and> fst (evaluate Binary64 (exampleRule majorityAbroad) settingsUSD)
     = Inr \<lparr>evaluation =
              ''The major part of your initial investment is not in your base currency (30.0% in USD)'',
            value = False\<rparr>"
  by code_simp

text \<open>
  The share of 41 in 80 is rounded when it is divided and again when it is multiplied by
  100: the program reports 51.2% where exact arithmetic gives 51.25 and would report
  51.3%.
\<close>

lemma evaluate_rounds_the_share:
  "fst (evaluate Binary64 (exampleRule unevenShare) settingsUSD)
     = Inr \<lparr>evaluation =
              ''The major part of your initial investment is in your base currency (51.2% in USD)'',
            value = True\<rparr>
   \<and> fst (evaluate Exact (exampleRule unevenShare) settingsUSD)
     = Inr \<lparr>evaluation =
              ''The major part of your initial investment is in your base currency (51.3% in USD)'',
            value = True\<rparr>"
  by code_simp

section \<open>The verdict and the reported share\<close>

text \<open>
  Claim C1. For positions with finite investments and every base currency, the groups
  are the currencies in the order of their first occurrence, with the base currency
  behind them when no position has it, each with the sum of the investments of its
  positions as a number. \<open>evaluate\<close> returns an evaluation whose verdict is true exactly
  when the first of the groups with the largest investment (\<open>largest\<close>: it exceeds every
  group before it, and no group exceeds it) is the base currency. The text reports, in
  the arithmetic of the program, the investment of the base currency divided by the
  running total of the groups, times 100, at three significant digits, behind the
  sentence that matches the verdict.
\<close>

theorem evaluate_flags_largest_currency_group:
  assumes ps_def: "ps = CurrentPositions.positions (currentPositions this)"
    and base_def: "base = Settings.baseCurrency ruleSettings"
    and finite: "\<forall>p\<in>set ps. isFinite (Position.investment p)"
  shows "\<exists>pre largest post.
           groupKeys ps base = pre @ largest # post
         \<and> (\<forall>c\<in>set pre. jsgt (groupInvestment m ps largest) (groupInvestment m ps c))
         \<and> (\<forall>c\<in>set (groupKeys ps base).
               \<not> jsgt (groupInvestment m ps c) (groupInvestment m ps largest))
         \<and> fst (evaluate m this ruleSettings) =
             Inr \<lparr>evaluation =
                    (if largest = base
                     then ''The major part of your initial investment is in your base currency (''
                     else ''The major part of your initial investment is not in your base currency ('')
                    @ toPrecision
                        (jsmul m
                           (or_zero
                              (jsdiv m (groupInvestment m ps base)
                                 (runningTotal m (map (groupInvestment m ps) (groupKeys ps base)))))
                           (Fin 100)) 3
                    @ ''% in '' @ base @ '')'',
                  value = (largest = base)\<rparr>"
proof -
  define grouped where "grouped = groupCurrentPositionsByAttribute m ps ''currency'' (Some base)"
  have read: "readOf grouped = map (\<lambda>c. (c, groupInvestment m ps c)) (groupKeys ps base)"
    unfolding grouped_def by (rule readOf_grouped [OF finite])
  have keys: "map groupKey grouped = groupKeys ps base"
  proof -
    have "map groupKey grouped = map fst (readOf grouped)"
      by (simp add: readOf_def comp_def)
    then show ?thesis by (simp add: read comp_def)
  qed
  have investments: "map GroupItem.investment grouped =
      map (groupInvestment m ps) (groupKeys ps base)"
  proof -
    have "map GroupItem.investment grouped = map snd (readOf grouped)"
      by (simp add: readOf_def comp_def)
    then show ?thesis by (simp add: read comp_def)
  qed
  have each: "GroupItem.investment g = groupInvestment m ps (groupKey g)"
    if "g \<in> set grouped" for g
  proof -
    from that have "(groupKey g, GroupItem.investment g) \<in> set (readOf grouped)"
      by (auto simp: readOf_def)
    then show ?thesis by (auto simp: read)
  qed
  have nan: "\<forall>g\<in>set grouped. GroupItem.investment g \<noteq> NaN"
    by (simp add: each groupInvestment_def rounded_not_NaN)
  have nonempty: "grouped \<noteq> []"
    unfolding grouped_def by (rule groupCurrentPositionsByAttribute_not_empty)
  from evaluateGrouped_first_largest [OF nan nonempty, of m ruleSettings]
  obtain pre mx post where place: "grouped = pre @ mx # post"
    and before: "\<forall>g\<in>set pre. jsgt (GroupItem.investment mx) (GroupItem.investment g)"
    and all: "\<forall>g\<in>set grouped. \<not> jsgt (GroupItem.investment g) (GroupItem.investment mx)"
    and result: "evaluateGrouped m grouped ruleSettings =
      Inr \<lparr>evaluation =
             evaluationText m (groupKey mx = base)
               (or_zero (jsdiv m (toNumber (map_of (readOf grouped) base))
                  (runningTotal m (map GroupItem.investment grouped))))
               base,
           value = (groupKey mx = base)\<rparr>"
    unfolding base_def by blast
  have mx: "mx \<in> set grouped"
    using place by simp
  have 1: "groupKeys ps base = map groupKey pre @ groupKey mx # map groupKey post"
    using keys place by simp
  have 2: "\<forall>c\<in>set (map groupKey pre).
      jsgt (groupInvestment m ps (groupKey mx)) (groupInvestment m ps c)"
    using before each [OF mx] each place by auto
  have 3: "\<forall>c\<in>set (groupKeys ps base).
      \<not> jsgt (groupInvestment m ps c) (groupInvestment m ps (groupKey mx))"
    using all each [OF mx] each unfolding keys [symmetric] by auto
  have "map_of (readOf grouped) base = Some (groupInvestment m ps base)"
    unfolding read by (rule map_of_keys) (rule base_in_groupKeys)
  with result have 4: "fst (evaluate m this ruleSettings) =
      Inr \<lparr>evaluation =
             evaluationText m (groupKey mx = base)
               (or_zero (jsdiv m (groupInvestment m ps base)
                  (runningTotal m (map (groupInvestment m ps) (groupKeys ps base)))))
               base,
           value = (groupKey mx = base)\<rparr>"
    by (simp add: evaluate_fst grouped_def ps_def base_def investments [unfolded grouped_def ps_def base_def]
          toNumber_def)
  from 1 2 3 4 show ?thesis
    by (intro exI [of _ "map groupKey pre"] exI [of _ "groupKey mx"] exI [of _ "map groupKey post"])
       (simp add: evaluationText_def)
qed

theorem evaluate_flags_largest_currency_group_witness:
  "list_all (\<lambda>p. isFinite (Position.investment p)) tiedAbroadFirst
   \<and> groupKeys tiedAbroadFirst ''USD'' = [''EUR'', ''USD'']
   \<and> groupInvestment Binary64 tiedAbroadFirst ''EUR'' = Fin 5
   \<and> groupInvestment Binary64 tiedAbroadFirst ''USD'' = Fin 5
   \<and> fst (evaluate Binary64 (exampleRule tiedAbroadFirst) settingsUSD) =
       Inr \<lparr>evaluation =
              ''The major part of your initial investment is not in your base currency (50.0% in USD)'',
            value = False\<rparr>"
proof -
  have ps: "tiedAbroadFirst =
      CurrentPositions.positions (currentPositions (exampleRule tiedAbroadFirst))"
    by (simp add: exampleRule_def CurrencyClusterRiskBaseCurrencyInitialInvestment_def)
  have base: "''USD'' = Settings.baseCurrency settingsUSD"
    by (simp add: settingsUSD_def getSettings_def)
  have finite: "\<forall>p\<in>set tiedAbroadFirst. isFinite (Position.investment p)"
    by (simp add: tiedAbroadFirst_def examplePosition_def)
  then have listed: "list_all (\<lambda>p. isFinite (Position.investment p)) tiedAbroadFirst"
    by (simp add: list_all_iff)
  have keys: "groupKeys tiedAbroadFirst ''USD'' = [''EUR'', ''USD'']"
    by code_simp
  have eur: "groupInvestment Binary64 tiedAbroadFirst ''EUR'' = Fin 5"
    by code_simp
  have usd: "groupInvestment Binary64 tiedAbroadFirst ''USD'' = Fin 5"
    by code_simp
  have share: "toPrecision
      (jsmul Binary64 (or_zero (jsdiv Binary64 (Fin 5) (runningTotal Binary64 [Fin 5, Fin 5])))
         (Fin 100)) 3 = ''50.0''"
    by code_simp
  from evaluate_flags_largest_currency_group [OF ps base finite, of Binary64]
  obtain pre largest post where place: "groupKeys tiedAbroadFirst ''USD'' = pre @ largest # post"
    and before: "\<forall>c\<in>set pre. jsgt (groupInvestment Binary64 tiedAbroadFirst largest)
                   (groupInvestment Binary64 tiedAbroadFirst c)"
    and result: "fst (evaluate Binary64 (exampleRule tiedAbroadFirst) settingsUSD) =
      Inr \<lparr>evaluation =
             (if largest = ''USD''
              then ''The major part of your initial investment is in your base currency (''
              else ''The major part of your initial investment is not in your base currency ('')
             @ toPrecision
                 (jsmul Binary64
                    (or_zero
                       (jsdiv Binary64 (groupInvestment Binary64 tiedAbroadFirst ''USD'')
                          (runningTotal Binary64
                             (map (groupInvestment Binary64 tiedAbroadFirst)
                                (groupKeys tiedAbroadFirst ''USD'')))))
                    (Fin 100)) 3
             @ ''% in '' @ ''USD'' @ '')'',
           value = (largest = ''USD'')\<rparr>"
    by blast
  have first: "largest = ''EUR''"
  proof (cases pre)
    case Nil
    with place keys show ?thesis by simp
  next
    case (Cons c cs)
    with place keys have c: "c = ''EUR''" and rest: "cs @ largest # post = [''USD'']"
      by simp_all
    from rest have "largest = ''USD''"
      by (cases cs) simp_all
    with before Cons c eur usd show ?thesis by simp
  qed
  have "fst (evaluate Binary64 (exampleRule tiedAbroadFirst) settingsUSD) =
       Inr \<lparr>evaluation =
              ''The major part of your initial investment is not in your base currency (50.0% in USD)'',
            value = False\<rparr>"
    unfolding result keys first by (simp add: eur usd share)
  with listed keys eur usd show ?thesis by simp
qed

section \<open>No failure on any position set\<close>

lemma evaluateGrouped_empty: "evaluateGrouped m [] ruleSettings = Inl TypeError"
  by (simp add: evaluateGrouped_def)

text \<open>
  Claim C3. For every rule object, the empty position set included, and all settings,
  the grouped sequence that \<open>evaluate\<close> reads its first element from is not empty,
  and \<open>evaluate\<close> returns an evaluation (whose \<open>value\<close> is a boolean) and not an
  error.
\<close>

theorem evaluate_never_raises:
  "groupCurrentPositionsByAttribute m (CurrentPositions.positions (currentPositions this))
       ''currency'' (Some (Settings.baseCurrency ruleSettings)) \<noteq> []
   \<and> (\<exists>result. fst (evaluate m this ruleSettings) = Inr result)"
proof -
  let ?grouped = "groupCurrentPositionsByAttribute m
      (CurrentPositions.positions (currentPositions this)) ''currency''
      (Some (Settings.baseCurrency ruleSettings))"
  have nonempty: "?grouped \<noteq> []"
    by (rule groupCurrentPositionsByAttribute_not_empty)
  then obtain first rest where "?grouped = first # rest"
    by (cases ?grouped) auto
  then have "\<exists>result. evaluateGrouped m ?grouped ruleSettings = Inr result"
    by (simp add: evaluateGrouped_Cons Let_def)
  with nonempty show ?thesis
    by (simp add: evaluate_fst)
qed

section \<open>The group of the pinned key\<close>

lemma find_append_cases:
  "find P (xs @ ys) = (case find P xs of None \<Rightarrow> find P ys | Some x \<Rightarrow> Some x)"
  by (induction xs) auto

text \<open>
  Claim C4. Grouping with a pinned key always has a group for that key, and when no
  position has the key among its attribute values, that group is the empty one with zero
  investment.
\<close>

theorem pinned_key_has_group:
  "find (\<lambda>item. groupKey item = key) (groupCurrentPositionsByAttribute m ps attribute (Some key))
     \<noteq> None
   \<and> ((\<forall>p\<in>set ps. key \<notin> fst ` set (attributeValues attribute p)) \<longrightarrow>
        find (\<lambda>item. groupKey item = key)
          (groupCurrentPositionsByAttribute m ps attribute (Some key))
          = Some \<lparr>groupKey = key, investment = Fin 0, positions = []\<rparr>)"
proof -
  let ?groups = "asNumbers m (groupPositions ps attribute)"
  let ?pin = "\<lparr>groupKey = key, investment = Fin 0, positions = []\<rparr>"
  have keys: "map groupKey ?groups = map groupKey (groupPositions ps attribute)"
    by (rule groupKey_asNumbers)
  have absent: "key \<notin> set (map groupKey (groupPositions ps attribute))"
    if "\<forall>p\<in>set ps. key \<notin> fst ` set (attributeValues attribute p)"
    using that by (simp add: set_groupKey_groupPositions del: set_map)
  show ?thesis
  proof (cases "key \<in> set (map groupKey (groupPositions ps attribute))")
    case True
    then have "find (\<lambda>item. groupKey item = key) ?groups \<noteq> None"
      by (simp add: find_None_groupKey keys del: set_map)
    with True absent show ?thesis
      by (auto simp: groupCurrentPositionsByAttribute_pinned simp del: set_map)
  next
    case False
    then have "find (\<lambda>item. groupKey item = key) ?groups = None"
      by (simp add: find_None_groupKey keys del: set_map)
    then have "find (\<lambda>item. groupKey item = key) (?groups @ [?pin]) = Some ?pin"
      by (simp add: find_append_cases)
    with False show ?thesis
      by (simp add: groupCurrentPositionsByAttribute_pinned del: set_map)
  qed
qed

theorem pinned_key_has_group_witness:
  "list_all (\<lambda>p. ''CHF'' \<notin> fst ` set (attributeValues ''currency'' p)) majorityInBase
   \<and> find (\<lambda>item. groupKey item = ''CHF'')
       (groupCurrentPositionsByAttribute Binary64 majorityInBase ''currency'' (Some ''CHF''))
       = Some \<lparr>groupKey = ''CHF'', investment = Fin 0, positions = []\<rparr>"
proof -
  have h: "\<forall>p\<in>set majorityInBase. ''CHF'' \<notin> fst ` set (attributeValues ''currency'' p)"
    by (simp add: majorityInBase_def examplePosition_def attributeValues_def)
  with pinned_key_has_group [of "''CHF''" Binary64 majorityInBase "''currency''"] show ?thesis
    by (simp add: list_all_iff)
qed

section \<open>The ratio over a zero total\<close>

lemma ratio_not_NaN: "baseCurrencyInvestmentRatio m gs totalInvestment base \<noteq> NaN"
  by (simp add: baseCurrencyInvestmentRatio_def or_zero_not_NaN)

lemma evaluation_text_no_NaN:
  "CHR ''N'' \<notin> set (toPrecision
     (jsmul m (baseCurrencyInvestmentRatio m gs totalInvestment base) (Fin 100)) 3)"
proof -
  have "jsmul m (baseCurrencyInvestmentRatio m gs totalInvestment base) (Fin 100) \<noteq> NaN"
    by (rule jsmul_not_NaN) (simp_all add: ratio_not_NaN)
  then show ?thesis
    by (rule toPrecision_no_N)
qed

lemma evaluateGrouped_returns:
  "gs \<noteq> [] \<Longrightarrow> \<exists>result. evaluateGrouped m gs ruleSettings = Inr result"
  by (cases gs) (simp_all add: evaluateGrouped_Cons Let_def)

text \<open>
  The ratio over the total zero, for every grouped sequence: the fallback \<open>|| 0\<close>
  replaces the quotient when the base currency has no group (\<open>undefined / 0\<close>), and when
  its investment is zero or \<open>NaN\<close>; every other investment of the base currency gives
  an infinity of its sign, which is truthy and is kept.
\<close>

lemma ratio_over_zero_total:
  "baseCurrencyInvestmentRatio m gs (Fin 0) base =
     (case investmentOf gs base of
        None \<Rightarrow> Fin 0
      | Some NaN \<Rightarrow> Fin 0
      | Some (Fin q) \<Rightarrow> if q = 0 then Fin 0 else signedInf (q < 0)
      | Some PosInf \<Rightarrow> PosInf
      | Some NegInf \<Rightarrow> NegInf)"
  by (simp add: baseCurrencyInvestmentRatio_def investmentOf_def toNumber_def or_zero_def
        signedInf_def split: option.splits number.splits)

lemma ratio_infinite_over_zero_total:
  "investmentOf gs base = Some (Fin q) \<Longrightarrow> q \<noteq> 0 \<Longrightarrow>
   baseCurrencyInvestmentRatio m gs (Fin 0) base = signedInf (q < 0)
   \<and> toPrecision (jsmul m (baseCurrencyInvestmentRatio m gs (Fin 0) base) (Fin 100)) 3
       = (if q < 0 then ''-Infinity'' else ''Infinity'')"
  by (simp add: ratio_over_zero_total signedInf_def toPrecision_def)

lemma cancelling_grouped:
  "groupCurrentPositionsByAttribute Binary64 cancelling ''currency'' (Some ''USD'')
     = cancellingGroups"
  by code_simp

text \<open>
  Claim C5, at the groups USD with 5 and EUR with -5. The total investment is zero and
  the quotient is \<open>5 / 0\<close>, which is \<open>Infinity\<close> and truthy: the fallback \<open>|| 0\<close>
  of line 82 does not replace it, the ratio is \<open>Infinity\<close> where the claim has 0, and
  the text reports \<open>Infinity%\<close>.
\<close>

theorem ratio_infinite_on_cancelling_investments:
  "snd (fold (forEachStep Binary64) cancellingGroups (hd cancellingGroups, Fin 0)) = Fin 0
   \<and> baseCurrencyInvestmentRatio Binary64 cancellingGroups
       (snd (fold (forEachStep Binary64) cancellingGroups (hd cancellingGroups, Fin 0))) ''USD''
       = PosInf
   \<and> evaluateGrouped Binary64 cancellingGroups settingsUSD =
       Inr \<lparr>evaluation =
              ''The major part of your initial investment is in your base currency (Infinity% in USD)'',
            value = True\<rparr>"
  by code_simp

section \<open>Activation of the rule\<close>

lemma evaluateAll_names:
  "evaluateAll catalog aUserSettings = Inr report \<Longrightarrow>
   map PortfolioReportRule.name report =
     map getName (filter (\<lambda>rule. isActive (ruleGetSettings rule aUserSettings)) catalog)"
proof (induction catalog arbitrary: report)
  case Nil
  then show ?case by simp
next
  case (Cons rule catalog)
  show ?case
  proof (cases "isActive (ruleGetSettings rule aUserSettings)")
    case False
    with Cons show ?thesis by simp
  next
    case True
    with Cons.prems obtain result rest where
      "ruleEvaluate rule (ruleGetSettings rule aUserSettings) = Inr result"
      "evaluateAll catalog aUserSettings = Inr rest"
      "report = \<lparr>evaluation = evaluation result, value = Evaluation.value result,
                  PortfolioReportRule.name = getName rule\<rparr> # rest"
      by (auto simp: Let_def split: sum.splits)
    with True Cons.IH [of rest] show ?thesis by simp
  qed
qed

text \<open>
  Claim C6 as stated fails: \<open>getSettings\<close> returns \<open>isActive: true\<close> whatever the
  user settings carry. Two user settings that differ only in an activation preference
  (the extension of the record, false and true) both give an active rule.
\<close>

theorem getSettings_ignores_preference_counterexample:
  "isActive (getSettings \<lparr>UserSettings.baseCurrency = ''USD'', \<dots> = False\<rparr>)
   \<and> isActive (getSettings \<lparr>UserSettings.baseCurrency = ''USD'', \<dots> = True\<rparr>)"
  by (simp add: getSettings_def)

text \<open>
  Claim C6, amended. The settings derived by \<open>getSettings\<close> always have the flag
  \<open>isActive\<close> set and carry the base currency of the user; and the report names
  exactly the rules of the catalog whose derived settings are active, in catalog order,
  so a rule with inactive settings contributes no entry.
\<close>

theorem getSettings_always_active:
  "isActive (getSettings aUserSettings)
   \<and> Settings.baseCurrency (getSettings aUserSettings) = UserSettings.baseCurrency aUserSettings
   \<and> (evaluateAll catalog aUserSettings = Inr report \<longrightarrow>
        map PortfolioReportRule.name report =
          map getName (filter (\<lambda>rule. isActive (ruleGetSettings rule aUserSettings)) catalog))"
  by (simp add: getSettings_def evaluateAll_names)

theorem getSettings_always_active_witness:
  "evaluateAll exampleCatalog \<lparr>UserSettings.baseCurrency = ''USD''\<rparr> = Inr exampleReport
   \<and> map PortfolioReportRule.name exampleReport =
       map getName
         (filter (\<lambda>rule. isActive (ruleGetSettings rule \<lparr>UserSettings.baseCurrency = ''USD''\<rparr>))
            exampleCatalog)"
proof -
  have run: "evaluateAll exampleCatalog \<lparr>UserSettings.baseCurrency = ''USD''\<rparr> = Inr exampleReport"
    by code_simp
  with getSettings_always_active
         [of "\<lparr>UserSettings.baseCurrency = ''USD''\<rparr>" exampleCatalog exampleReport]
  show ?thesis by blast
qed

section \<open>Determinism\<close>

text \<open>
  What \<open>evaluate\<close> depends on. Lines 64 to 98 read the key and the investment of each
  group and the base currency of the settings, and nothing else: they are the function
  \<open>evaluateRead\<close> of these.
\<close>

lemma fold_readStep:
  "fold (readStep m) (readOf gs) ((groupKey cur, GroupItem.investment cur), t) =
     ((groupKey (fst (fold (forEachStep m) gs (cur, t))),
       GroupItem.investment (fst (fold (forEachStep m) gs (cur, t)))),
      snd (fold (forEachStep m) gs (cur, t)))"
  by (induction gs arbitrary: cur t) (simp_all add: readOf_def readStep_def forEachStep_def)

lemma evaluateRead_nonempty:
  "rs \<noteq> [] \<Longrightarrow>
   evaluateRead m rs base =
     Inr \<lparr>evaluation =
            evaluationText m (fst (fst (fold (readStep m) rs (hd rs, Fin 0))) = base)
              (or_zero (jsdiv m (toNumber (map_of rs base))
                 (snd (fold (readStep m) rs (hd rs, Fin 0)))))
              base,
          value = (fst (fst (fold (readStep m) rs (hd rs, Fin 0))) = base)\<rparr>"
  by (cases rs) (simp_all add: evaluateRead_def Let_def split: prod.splits)

lemma evaluateGrouped_read:
  "evaluateGrouped m gs s = evaluateRead m (readOf gs) (Settings.baseCurrency s)"
proof (cases gs)
  case Nil
  then show ?thesis
    by (simp add: evaluateGrouped_def evaluateRead_def readOf_def)
next
  case (Cons first rest)
  have nonempty: "readOf gs \<noteq> []"
    by (simp add: Cons readOf_def)
  have first: "hd (readOf gs) = (groupKey first, GroupItem.investment first)"
    by (simp add: Cons readOf_def)
  have read: "evaluateRead m (readOf gs) (Settings.baseCurrency s) =
      Inr \<lparr>evaluation =
             evaluationText m
               (groupKey (fst (fold (forEachStep m) gs (first, Fin 0))) = Settings.baseCurrency s)
               (or_zero (jsdiv m (toNumber (map_of (readOf gs) (Settings.baseCurrency s)))
                  (snd (fold (forEachStep m) gs (first, Fin 0)))))
               (Settings.baseCurrency s),
           value =
             (groupKey (fst (fold (forEachStep m) gs (first, Fin 0))) = Settings.baseCurrency s)\<rparr>"
    by (simp only: evaluateRead_nonempty [OF nonempty] first fold_readStep fst_conv snd_conv)
  have "evaluateGrouped m (first # rest) s =
      Inr \<lparr>evaluation =
             evaluationText m
               (groupKey (fst (fold (forEachStep m) gs (first, Fin 0))) = Settings.baseCurrency s)
               (or_zero (jsdiv m (toNumber (map_of (readOf gs) (Settings.baseCurrency s)))
                  (snd (fold (forEachStep m) gs (first, Fin 0)))))
               (Settings.baseCurrency s),
           value =
             (groupKey (fst (fold (forEachStep m) gs (first, Fin 0))) = Settings.baseCurrency s)\<rparr>"
    unfolding evaluateGrouped_Cons Let_def baseCurrencyInvestmentRatio_def find_readOf
    by (simp only: Cons [symmetric])
  then show ?thesis
    by (simp only: Cons [symmetric] read)
qed

lemma evaluateWith_read:
  "fst (evaluateWith m helper this s) =
     evaluateRead m
       (readOf (fst (helper this (CurrentPositions.positions (currentPositions this))
          ''currency'' (Settings.baseCurrency s))))
       (Settings.baseCurrency s)"
  by (simp add: evaluateWith_def evaluateGrouped_read split: prod.splits)

text \<open>
  The grouping by currency reads the currency and the investment of each position, and
  nothing else.
\<close>

lemma readOf_addToGroup:
  "readOf (addToGroup p (key, weight) gs) =
     addToRead (key, jsmul Exact (Position.investment p) weight) (readOf gs)"
  by (induction gs) (simp_all add: readOf_def)

lemma readOf_fold_currencyStep:
  "readOf (fold currencyStep ps gs) =
     fold (\<lambda>(c, i). addToRead (c, jsmul Exact i (Fin 1))) (readOfPositions ps) (readOf gs)"
proof (induction ps arbitrary: gs)
  case Nil
  then show ?case by (simp add: readOfPositions_def)
next
  case (Cons p ps)
  show ?case
    unfolding fold_currencyStep_Cons Cons.IH readOf_addToGroup
    by (simp add: readOfPositions_def)
qed

lemma map_of_readOf_None:
  "(map_of (readOf gs) key = None) = (find (\<lambda>item. groupKey item = key) gs = None)"
  by (simp add: find_readOf [symmetric])

lemma readOf_groupCurrentPositionsByAttribute:
  "readOf (groupCurrentPositionsByAttribute m ps ''currency'' (Some base)) =
     groupRead m (readOfPositions ps) base"
proof -
  let ?groups = "asNumbers m (groupPositions ps ''currency'')"
  have groups: "readOf ?groups =
      map (\<lambda>(k, a). (k, asNumber m a))
        (fold (\<lambda>(c, i). addToRead (c, jsmul Exact i (Fin 1))) (readOfPositions ps) [])"
    unfolding readOf_asNumbers groupPositions_currency readOf_fold_currencyStep
    by (simp add: readOf_def)
  have pin: "readOf (?groups @ [\<lparr>groupKey = base, investment = Fin 0, positions = []\<rparr>]) =
      readOf ?groups @ [(base, Fin 0)]"
    by (simp add: readOf_def)
  have grouped: "groupCurrentPositionsByAttribute m ps ''currency'' (Some base) =
      (if find (\<lambda>item. groupKey item = base) ?groups = None
       then ?groups @ [\<lparr>groupKey = base, investment = Fin 0, positions = []\<rparr>]
       else ?groups)"
    by (simp add: groupCurrentPositionsByAttribute_def Let_def)
  have read: "groupRead m (readOfPositions ps) base =
      (if map_of (readOf ?groups) base = None
       then readOf ?groups @ [(base, Fin 0)] else readOf ?groups)"
    unfolding groupRead_def Let_def groups [symmetric] by (rule refl)
  show ?thesis
    unfolding grouped read map_of_readOf_None by (simp add: pin)
qed

lemma evaluate_read:
  "fst (evaluate m this s) =
     evaluateRead m
       (groupRead m (readOfPositions (CurrentPositions.positions (currentPositions this)))
          (Settings.baseCurrency s))
       (Settings.baseCurrency s)"
  by (simp add: evaluate_fst evaluateGrouped_read readOf_groupCurrentPositionsByAttribute)

text \<open>
  The report depends on the name, the derived settings and the evaluation of each rule
  of the catalog, in catalog order.
\<close>

lemma evaluateAll_same:
  "list_all2 (\<lambda>a b. getName a = getName b
       \<and> ruleGetSettings a u = ruleGetSettings b u
       \<and> ruleEvaluate a (ruleGetSettings a u) = ruleEvaluate b (ruleGetSettings b u)) c1 c2
   \<Longrightarrow> evaluateAll c1 u = evaluateAll c2 u"
proof (induction rule: list_all2_induct)
  case Nil
  show ?case by simp
next
  case (Cons x xs y ys)
  then have name: "getName x = getName y"
    and settings: "ruleGetSettings x u = ruleGetSettings y u"
    and evaluated: "ruleEvaluate x (ruleGetSettings x u) = ruleEvaluate y (ruleGetSettings y u)"
    and rest: "evaluateAll xs u = evaluateAll ys u"
    by blast+
  from evaluated
  have result: "ruleEvaluate x (ruleGetSettings y u) = ruleEvaluate y (ruleGetSettings y u)"
    by (simp only: settings)
  show ?case
    by (simp only: evaluateAll.simps Let_def name settings result rest)
qed

lemma currencyRules_same:
  "list_all2 (\<lambda>a b. Rule.name a = Rule.name b
       \<and> readOfPositions (CurrentPositions.positions (currentPositions a))
           = readOfPositions (CurrentPositions.positions (currentPositions b))) rules1 rules2
   \<Longrightarrow> evaluateAll (map (currencyRule m) rules1) u = evaluateAll (map (currencyRule m) rules2) u"
proof (rule evaluateAll_same)
  assume "list_all2 (\<lambda>a b. Rule.name a = Rule.name b
       \<and> readOfPositions (CurrentPositions.positions (currentPositions a))
           = readOfPositions (CurrentPositions.positions (currentPositions b))) rules1 rules2"
  then show "list_all2 (\<lambda>a b. getName a = getName b
       \<and> ruleGetSettings a u = ruleGetSettings b u
       \<and> ruleEvaluate a (ruleGetSettings a u) = ruleEvaluate b (ruleGetSettings b u))
     (map (currencyRule m) rules1) (map (currencyRule m) rules2)"
    by (simp add: list_all2_map1 list_all2_map2 currencyRule_def evaluate_read
          list_all2_mono)
qed

text \<open>
  Claim C7. The evaluation that \<open>evaluate\<close> returns is determined by what it reads:
  lines 64 to 98 give the same evaluation on two grouped sequences with the same keys and
  investments and two settings with the same base currency, whatever else the groups
  and the settings hold; with any two grouping methods that return such sequences, two
  rule objects give the same evaluation, whatever their exchange rate services; with the
  helper, so do two rule objects whose positions have the same currencies and
  investments; in particular two runs on the same \<open>CurrentPositions\<close> and the same
  settings return the same evaluation. And two catalogs of currency rules over rule
  objects with the same names and such positions, in the same order, yield the same
  ordered report.
\<close>

theorem evaluate_deterministic:
  "(readOf gs1 = readOf gs2 \<and> Settings.baseCurrency s1 = Settings.baseCurrency s2
      \<longrightarrow> evaluateGrouped m gs1 s1 = evaluateGrouped m gs2 s2)
   \<and> (readOf (fst (helper1 this1 (CurrentPositions.positions (currentPositions this1))
                     ''currency'' (Settings.baseCurrency s1)))
         = readOf (fst (helper2 this2 (CurrentPositions.positions (currentPositions this2))
                     ''currency'' (Settings.baseCurrency s2)))
       \<and> Settings.baseCurrency s1 = Settings.baseCurrency s2
      \<longrightarrow> fst (evaluateWith m helper1 this1 s1) = fst (evaluateWith m helper2 this2 s2))
   \<and> (readOfPositions (CurrentPositions.positions (currentPositions this1))
         = readOfPositions (CurrentPositions.positions (currentPositions this2))
       \<and> Settings.baseCurrency s1 = Settings.baseCurrency s2
      \<longrightarrow> fst (evaluate m this1 s1) = fst (evaluate m this2 s2))
   \<and> (currentPositions this1 = currentPositions this2 \<and> s1 = s2
      \<longrightarrow> fst (evaluate m this1 s1) = fst (evaluate m this2 s2))
   \<and> (list_all2 (\<lambda>a b. Rule.name a = Rule.name b
          \<and> readOfPositions (CurrentPositions.positions (currentPositions a))
              = readOfPositions (CurrentPositions.positions (currentPositions b)))
        rules1 rules2
      \<longrightarrow> evaluateAll (map (currencyRule m) rules1) aUserSettings
            = evaluateAll (map (currencyRule m) rules2) aUserSettings)"
proof (intro conjI impI)
  assume "readOf gs1 = readOf gs2 \<and> Settings.baseCurrency s1 = Settings.baseCurrency s2"
  then show "evaluateGrouped m gs1 s1 = evaluateGrouped m gs2 s2"
    by (simp add: evaluateGrouped_read)
next
  assume "readOf (fst (helper1 this1 (CurrentPositions.positions (currentPositions this1))
                     ''currency'' (Settings.baseCurrency s1)))
         = readOf (fst (helper2 this2 (CurrentPositions.positions (currentPositions this2))
                     ''currency'' (Settings.baseCurrency s2)))
       \<and> Settings.baseCurrency s1 = Settings.baseCurrency s2"
  then have groups: "readOf (fst (helper1 this1
        (CurrentPositions.positions (currentPositions this1)) ''currency''
        (Settings.baseCurrency s1)))
      = readOf (fst (helper2 this2
        (CurrentPositions.positions (currentPositions this2)) ''currency''
        (Settings.baseCurrency s2)))"
    and base: "Settings.baseCurrency s1 = Settings.baseCurrency s2"
    by blast+
  have "fst (evaluateWith m helper1 this1 s1) =
      evaluateRead m
        (readOf (fst (helper2 this2 (CurrentPositions.positions (currentPositions this2))
           ''currency'' (Settings.baseCurrency s2))))
        (Settings.baseCurrency s1)"
    by (simp only: evaluateWith_read groups)
  also have "\<dots> = fst (evaluateWith m helper2 this2 s2)"
    by (simp only: evaluateWith_read base)
  finally show "fst (evaluateWith m helper1 this1 s1) = fst (evaluateWith m helper2 this2 s2)" .
next
  assume "readOfPositions (CurrentPositions.positions (currentPositions this1))
         = readOfPositions (CurrentPositions.positions (currentPositions this2))
       \<and> Settings.baseCurrency s1 = Settings.baseCurrency s2"
  then show "fst (evaluate m this1 s1) = fst (evaluate m this2 s2)"
    by (simp add: evaluate_read)
next
  assume "currentPositions this1 = currentPositions this2 \<and> s1 = s2"
  then show "fst (evaluate m this1 s1) = fst (evaluate m this2 s2)"
    by (simp add: evaluate_read)
next
  assume "list_all2 (\<lambda>a b. Rule.name a = Rule.name b
          \<and> readOfPositions (CurrentPositions.positions (currentPositions a))
              = readOfPositions (CurrentPositions.positions (currentPositions b)))
        rules1 rules2"
  then show "evaluateAll (map (currencyRule m) rules1) aUserSettings
            = evaluateAll (map (currencyRule m) rules2) aUserSettings"
    by (rule currencyRules_same)
qed

theorem evaluate_deterministic_witness:
  "readOf cancellingGroups = readOf cancellingGroupsBare
   \<and> Settings.baseCurrency settingsUSD = Settings.baseCurrency inactiveSettingsUSD
   \<and> evaluateGrouped Binary64 cancellingGroups settingsUSD
       = evaluateGrouped Binary64 cancellingGroupsBare inactiveSettingsUSD
   \<and> readOfPositions (CurrentPositions.positions (currentPositions (exampleRule majorityAbroad)))
       = readOfPositions (CurrentPositions.positions (currentPositions otherServiceRule))
   \<and> fst (evaluateWith Binary64 (groupingMethod Binary64) (exampleRule majorityAbroad) settingsUSD)
       = fst (evaluateWith Binary64 (clearingMethod Binary64) otherServiceRule inactiveSettingsUSD)
   \<and> fst (evaluate Binary64 (exampleRule majorityAbroad) settingsUSD)
       = fst (evaluate Binary64 otherServiceRule inactiveSettingsUSD)
   \<and> fst (evaluate Binary64 (exampleRule majorityAbroad) settingsUSD)
       = fst (evaluate Binary64
           (CurrencyClusterRiskBaseCurrencyInitialInvestment (1 :: nat)
              (currentPositions (exampleRule majorityAbroad)))
           settingsUSD)
   \<and> list_all2 (\<lambda>a b. Rule.name a = Rule.name b
          \<and> readOfPositions (CurrentPositions.positions (currentPositions a))
              = readOfPositions (CurrentPositions.positions (currentPositions b)))
        exampleRules otherServiceRules
   \<and> evaluateAll (map (currencyRule Binary64) exampleRules) \<lparr>UserSettings.baseCurrency = ''USD''\<rparr>
       = evaluateAll (map (currencyRule Binary64) otherServiceRules)
           \<lparr>UserSettings.baseCurrency = ''USD''\<rparr>"
proof -
  have groups: "readOf cancellingGroups = readOf cancellingGroupsBare"
    by (simp add: readOf_def cancellingGroups_def cancellingGroupsBare_def)
  have base: "Settings.baseCurrency settingsUSD = Settings.baseCurrency inactiveSettingsUSD"
    by (simp add: inactiveSettingsUSD_def)
  have read: "readOfPositions
        (CurrentPositions.positions (currentPositions (exampleRule majorityAbroad)))
      = readOfPositions (CurrentPositions.positions (currentPositions otherServiceRule))"
    by (simp add: readOfPositions_def exampleRule_def otherServiceRule_def
          CurrencyClusterRiskBaseCurrencyInitialInvestment_def majorityAbroad_def
          examplePosition_def)
  have grouped: "readOf (fst (groupingMethod Binary64 (exampleRule majorityAbroad)
        (CurrentPositions.positions (currentPositions (exampleRule majorityAbroad)))
        ''currency'' (Settings.baseCurrency settingsUSD)))
      = readOf (fst (clearingMethod Binary64 otherServiceRule
        (CurrentPositions.positions (currentPositions otherServiceRule))
        ''currency'' (Settings.baseCurrency inactiveSettingsUSD)))"
    by (simp add: groupingMethod_def clearingMethod_def readOf_groupCurrentPositionsByAttribute
          read base)
  have same: "currentPositions (exampleRule majorityAbroad)
      = currentPositions (CurrencyClusterRiskBaseCurrencyInitialInvestment (1 :: nat)
          (currentPositions (exampleRule majorityAbroad)))"
    by (simp add: CurrencyClusterRiskBaseCurrencyInitialInvestment_def)
  have rules: "list_all2 (\<lambda>a b. Rule.name a = Rule.name b
          \<and> readOfPositions (CurrentPositions.positions (currentPositions a))
              = readOfPositions (CurrentPositions.positions (currentPositions b)))
        exampleRules otherServiceRules"
    using read
    by (simp add: exampleRules_def otherServiceRules_def exampleRule_def otherServiceRule_def
          CurrencyClusterRiskBaseCurrencyInitialInvestment_def)
  note run = evaluate_deterministic
    [where ?gs1.0 = cancellingGroups and ?gs2.0 = cancellingGroupsBare
       and ?s1.0 = settingsUSD and ?s2.0 = inactiveSettingsUSD and m = Binary64
       and ?helper1.0 = "groupingMethod Binary64" and ?this1.0 = "exampleRule majorityAbroad"
       and ?helper2.0 = "clearingMethod Binary64" and ?this2.0 = otherServiceRule
       and ?rules1.0 = exampleRules and ?rules2.0 = otherServiceRules
       and aUserSettings = "\<lparr>UserSettings.baseCurrency = ''USD''\<rparr>"]
  note again = evaluate_deterministic
    [where ?s1.0 = settingsUSD and ?s2.0 = settingsUSD and m = Binary64
       and ?this1.0 = "exampleRule majorityAbroad"
       and ?this2.0 = "CurrencyClusterRiskBaseCurrencyInitialInvestment (1 :: nat)
                         (currentPositions (exampleRule majorityAbroad))"]
  from run groups base
  have 1: "evaluateGrouped Binary64 cancellingGroups settingsUSD
      = evaluateGrouped Binary64 cancellingGroupsBare inactiveSettingsUSD"
    by blast
  from run grouped base
  have 2: "fst (evaluateWith Binary64 (groupingMethod Binary64) (exampleRule majorityAbroad)
        settingsUSD)
      = fst (evaluateWith Binary64 (clearingMethod Binary64) otherServiceRule
          inactiveSettingsUSD)"
    by blast
  from run read base
  have 3: "fst (evaluate Binary64 (exampleRule majorityAbroad) settingsUSD)
      = fst (evaluate Binary64 otherServiceRule inactiveSettingsUSD)"
    by blast
  from again same
  have 4: "fst (evaluate Binary64 (exampleRule majorityAbroad) settingsUSD)
       = fst (evaluate Binary64
           (CurrencyClusterRiskBaseCurrencyInitialInvestment (1 :: nat)
              (currentPositions (exampleRule majorityAbroad)))
           settingsUSD)"
    by blast
  from run rules
  have 5: "evaluateAll (map (currencyRule Binary64) exampleRules)
        \<lparr>UserSettings.baseCurrency = ''USD''\<rparr>
      = evaluateAll (map (currencyRule Binary64) otherServiceRules)
          \<lparr>UserSettings.baseCurrency = ''USD''\<rparr>"
    by blast
  from groups base 1 read 2 3 4 rules 5 show ?thesis
    by (intro conjI)
qed

section \<open>The frame of \<open>evaluate\<close>\<close>

text \<open>
  The statements of \<open>evaluate\<close> write to the local variables \<open>maxItem\<close> and
  \<open>totalInvestment\<close> only, so the rule object after the call is the one that the
  grouping method leaves: a method that empties the positions array shows in the object
  that \<open>evaluate\<close> leaves.
\<close>

lemma evaluateWith_shows_writes_of_the_helper:
  "currentPositions (snd (evaluateWith m (clearingMethod m) this ruleSettings))
     = (currentPositions this)\<lparr>CurrentPositions.positions := []\<rparr>"
  by (simp add: evaluateWith_def clearingMethod_def)

lemma evaluateWith_cleared_example:
  "CurrentPositions.positions (currentPositions
     (snd (evaluateWith Binary64 (clearingMethod Binary64) (exampleRule majorityInBase)
        settingsUSD)))
   \<noteq> CurrentPositions.positions (currentPositions (exampleRule majorityInBase))"
  by (simp add: evaluateWith_shows_writes_of_the_helper exampleRule_def
        CurrencyClusterRiskBaseCurrencyInitialInvestment_def majorityInBase_def)


section \<open>The 404 branch of \<open>getPublic\<close>\<close>

lemma publicDetails_status:
  "publicDetails m this access user = Inr response \<Longrightarrow> status response = OK"
  by (auto simp: publicDetails_def Let_def split: if_splits option.splits sum.splits)

text \<open>
  Claim C9. When the access lookup finds nothing, \<open>getPublic\<close> fails with a TypeError
  on \<open>access.userId\<close>; when it finds an access, the test \<open>!access\<close> is false and
  the handler continues with the public details; so no response of \<open>getPublic\<close> has
  the status 404.
\<close>

theorem getPublic_not_found_unreachable:
  "(accessService_access this accessId = None \<longrightarrow> getPublic m this accessId = Inl TypeError)
   \<and> (\<forall>found. accessService_access this accessId = Some found \<longrightarrow>
         getPublic m this accessId
           = publicDetails m this found (userService_user this (userId found)))
   \<and> (\<forall>response. getPublic m this accessId = Inr response \<longrightarrow> status response \<noteq> NOT_FOUND)"
proof -
  have 1: "getPublic m this accessId = Inl TypeError"
    if "accessService_access this accessId = None"
    using that by (simp add: getPublic_def)
  have 2: "getPublic m this accessId
      = publicDetails m this found (userService_user this (userId found))"
    if "accessService_access this accessId = Some found" for found
    using that by (simp add: getPublic_def)
  have 3: "status response \<noteq> NOT_FOUND" if run: "getPublic m this accessId = Inr response"
    for response
  proof (cases "accessService_access this accessId")
    case None
    with 1 run show ?thesis by simp
  next
    case (Some found)
    with 2 run
    have "publicDetails m this found (userService_user this (userId found)) = Inr response"
      by simp
    then have "status response = OK"
      by (rule publicDetails_status)
    then show ?thesis by (simp add: OK_def NOT_FOUND_def)
  qed
  from 1 2 3 show ?thesis by blast
qed

theorem getPublic_not_found_unreachable_witness:
  "accessService_access exampleServices ''missing'' = None
   \<and> getPublic Binary64 exampleServices ''missing'' = Inl TypeError
   \<and> accessService_access exampleServices ''known'' = Some \<lparr>userId = ''u1''\<rparr>
   \<and> (\<exists>response. getPublic Binary64 exampleServices ''known'' = Inr response
         \<and> status response \<noteq> NOT_FOUND)"
proof -
  have missing: "accessService_access exampleServices ''missing'' = None"
    by (simp add: exampleServices_def)
  have known: "accessService_access exampleServices ''known'' = Some \<lparr>userId = ''u1''\<rparr>"
    by (simp add: exampleServices_def)
  have "\<exists>response. publicDetails Binary64 exampleServices \<lparr>userId = ''u1''\<rparr>
      (userService_user exampleServices (userId \<lparr>userId = ''u1''\<rparr>)) = Inr response"
    by (simp add: publicDetails_def exampleServices_def Let_def)
  with missing known
    getPublic_not_found_unreachable [of exampleServices "''missing''" Binary64]
    getPublic_not_found_unreachable [of exampleServices "''known''" Binary64]
  show ?thesis by (metis (no_types, lifting))
qed

section \<open>The restricted view of \<open>getDetails\<close>\<close>

lemma sumNumbers_finite:
  "\<forall>x\<in>set xs. isFinite x \<Longrightarrow>
   fold (\<lambda>b a. jsadd Exact a b) xs (Fin t) = Fin (t + (\<Sum>x\<leftarrow>xs. fin x))"
  by (induction xs arbitrary: t) (auto simp: isFinite_iff)

lemma totalInvestment_finite:
  assumes "\<forall>(symbol, p)\<in>set hs. isFinite (PortfolioPosition.investment p)"
  shows "sumNumbers Exact (map (\<lambda>(symbol, p). PortfolioPosition.investment p) hs)
           = Fin (investmentTotal hs)"
proof -
  have "\<forall>x\<in>set (map (\<lambda>(symbol, p). PortfolioPosition.investment p) hs). isFinite x"
    using assms by auto
  then have "sumNumbers Exact (map (\<lambda>(symbol, p). PortfolioPosition.investment p) hs) =
      Fin (0 + (\<Sum>x\<leftarrow>map (\<lambda>(symbol, p). PortfolioPosition.investment p) hs. fin x))"
    unfolding sumNumbers_def by (rule sumNumbers_finite)
  also have "(\<Sum>x\<leftarrow>map (\<lambda>(symbol, p). PortfolioPosition.investment p) hs. fin x) =
      investmentTotal hs"
    by (simp add: investmentTotal_def comp_def case_prod_unfold)
  finally show ?thesis by simp
qed

lemma sum_list_divide:
  "(\<Sum>x\<leftarrow>xs. f x / c) = (\<Sum>x\<leftarrow>xs. f x) / (c :: rat)"
  by (induction xs) (simp_all add: add_divide_distrib)

text \<open>
  In every arithmetic, the restricted view keeps the symbols, sets the quantity and the
  two performances to \<open>null\<close>, and divides each investment by the total of the
  investments taken before the loop.
\<close>

lemma restrictedView_fields:
  "map (\<lambda>(symbol, p).
          (symbol, PortfolioPosition.investment p, PortfolioPosition.quantity p,
           PortfolioPosition.grossPerformance p, PortfolioPosition.netPerformance p))
     (PortfolioDetails.holdings (restrictedView m toCurrency userCurrency details))
   = map (\<lambda>(symbol, p).
          (symbol,
           jsdiv m (PortfolioPosition.investment p)
             (sumNumbers m (map (\<lambda>(symbol, p). PortfolioPosition.investment p)
                (PortfolioDetails.holdings details))),
           None, None, None))
     (PortfolioDetails.holdings details)"
  by (auto simp: restrictedView_def Let_def)

lemma restrictedView_normalized:
  assumes finite: "\<forall>(symbol, p)\<in>set (PortfolioDetails.holdings details).
                     isFinite (PortfolioPosition.investment p)"
    and total: "investmentTotal (PortfolioDetails.holdings details) \<noteq> 0"
  shows "map (\<lambda>(symbol, p).
               (symbol, PortfolioPosition.investment p, PortfolioPosition.quantity p,
                PortfolioPosition.grossPerformance p, PortfolioPosition.netPerformance p))
           (PortfolioDetails.holdings (restrictedView Exact toCurrency userCurrency details))
         = map (\<lambda>(symbol, p).
               (symbol,
                Fin (fin (PortfolioPosition.investment p)
                       / investmentTotal (PortfolioDetails.holdings details)),
                None, None, None))
           (PortfolioDetails.holdings details)"
proof -
  have "jsdiv Exact (PortfolioPosition.investment p)
          (Fin (investmentTotal (PortfolioDetails.holdings details)))
        = Fin (fin (PortfolioPosition.investment p)
                 / investmentTotal (PortfolioDetails.holdings details))"
    if "(symbol, p) \<in> set (PortfolioDetails.holdings details)" for symbol p
    using that finite total by (auto simp: isFinite_iff)
  then show ?thesis
    by (auto simp: restrictedView_def Let_def totalInvestment_finite [OF finite])
qed

lemma normalized_sum:
  assumes "map (\<lambda>(symbol, p). (symbol, PortfolioPosition.investment p,
               PortfolioPosition.quantity p, PortfolioPosition.grossPerformance p,
               PortfolioPosition.netPerformance p)) hs'
         = map (\<lambda>(symbol, p). (symbol, Fin (fin (PortfolioPosition.investment p) / whole),
               None, None, None)) hs"
    and "investmentTotal hs = whole" and "whole \<noteq> 0"
  shows "investmentTotal hs' = 1"
proof -
  have "map (\<lambda>(symbol, p). fin (PortfolioPosition.investment p)) hs' =
      map (fin \<circ> fst \<circ> snd)
        (map (\<lambda>(symbol, p). (symbol, PortfolioPosition.investment p,
               PortfolioPosition.quantity p, PortfolioPosition.grossPerformance p,
               PortfolioPosition.netPerformance p)) hs')"
    by (simp add: comp_def case_prod_unfold)
  also have "\<dots> = map (\<lambda>(symbol, p). fin (PortfolioPosition.investment p) / whole) hs"
    unfolding assms(1) by (simp add: comp_def case_prod_unfold)
  finally have "investmentTotal hs' =
      (\<Sum>(symbol, p)\<leftarrow>hs. fin (PortfolioPosition.investment p) / whole)"
    by (simp add: investmentTotal_def)
  also have "\<dots> = investmentTotal hs / whole"
    by (simp add: investmentTotal_def case_prod_unfold sum_list_divide)
  finally show ?thesis
    using assms(2,3) by simp
qed

text \<open>
  Claim C10, in exact arithmetic. When \<open>getDetails\<close> responds under the restricted
  view (an impersonation header or a restricted user) and the investments of the holdings
  are finite with a total that is not zero, every holding of the response keeps its
  symbol, has the investment that is its original investment divided by the total, and
  has \<open>null\<close> for quantity, gross performance and net performance; the investments of
  the response sum to 1.
\<close>

theorem getDetails_restricted_view_normalizes:
  assumes run: "getDetails Exact this impersonationId aRange = Inr response"
    and user: "request_user this = Some user"
    and restricted: "truthy impersonationId \<or> userService_isRestrictedView this user"
    and allowed: "\<not> (configurationService_get this ''ENABLE_FEATURE_SUBSCRIPTION''
                       \<and> type (subscription user) = ''Basic'')"
    and before: "before = PortfolioDetails.holdings
                     (portfolioService_getDetails this impersonationId (id' user) aRange)"
    and finite: "\<forall>(symbol, p)\<in>set before. isFinite (PortfolioPosition.investment p)"
    and nonzero: "investmentTotal before \<noteq> 0"
  shows "map (\<lambda>(symbol, p).
               (symbol, PortfolioPosition.investment p, PortfolioPosition.quantity p,
                PortfolioPosition.grossPerformance p, PortfolioPosition.netPerformance p))
           (PortfolioDetails.holdings (body response))
         = map (\<lambda>(symbol, p).
               (symbol, Fin (fin (PortfolioPosition.investment p) / investmentTotal before),
                None, None, None))
           before
       \<and> investmentTotal (PortfolioDetails.holdings (body response)) = 1"
proof -
  define result where "result = portfolioService_getDetails this impersonationId (id' user) aRange"
  define details :: PortfolioDetails where
    "details = \<lparr>accounts = accounts result,
                 PortfolioDetails.holdings = PortfolioDetails.holdings result\<rparr>"
  have holdings: "PortfolioDetails.holdings details = before"
    by (simp add: details_def result_def before)
  from nonzero have nonempty: "PortfolioDetails.holdings result \<noteq> []"
    by (auto simp: result_def before [symmetric] investmentTotal_def)
  from run user restricted allowed nonempty
  obtain userCurrency where
    "body response = restrictedView Exact (exchangeRateDataService_toCurrency this) userCurrency details"
    by (auto simp: getDetails_def Let_def result_def [symmetric] details_def [symmetric]
             split: option.splits if_splits)
  then have normalized: "map (\<lambda>(symbol, p).
               (symbol, PortfolioPosition.investment p, PortfolioPosition.quantity p,
                PortfolioPosition.grossPerformance p, PortfolioPosition.netPerformance p))
           (PortfolioDetails.holdings (body response))
         = map (\<lambda>(symbol, p).
               (symbol, Fin (fin (PortfolioPosition.investment p) / investmentTotal before),
                None, None, None))
           before"
    using restrictedView_normalized [of details "exchangeRateDataService_toCurrency this" userCurrency]
      finite nonzero
    by (simp add: holdings)
  from normalized_sum [OF normalized refl nonzero] normalized show ?thesis
    by simp
qed

theorem getDetails_restricted_view_normalizes_witness:
  "\<exists>response.
     getDetails Exact exampleServices None None = Inr response
     \<and> request_user exampleServices = Some exampleUser
     \<and> (truthy None \<or> userService_isRestrictedView exampleServices exampleUser)
     \<and> (\<forall>(symbol, p)\<in>set (PortfolioDetails.holdings exampleDetails).
           isFinite (PortfolioPosition.investment p))
     \<and> investmentTotal (PortfolioDetails.holdings exampleDetails) = 800
     \<and> map (\<lambda>(symbol, p).
               (symbol, PortfolioPosition.investment p, PortfolioPosition.quantity p,
                PortfolioPosition.grossPerformance p, PortfolioPosition.netPerformance p))
           (PortfolioDetails.holdings (body response))
         = [(''AAA'', Fin (3 / 4), None, None, None), (''BBB'', Fin (1 / 4), None, None, None)]
     \<and> investmentTotal (PortfolioDetails.holdings (body response)) = 1"
proof -
  obtain response where run: "getDetails Exact exampleServices None None = Inr response"
    by (simp add: getDetails_def exampleServices_def exampleUser_def Let_def)
  have user: "request_user exampleServices = Some exampleUser"
    by (simp add: exampleServices_def)
  have restricted: "truthy None \<or> userService_isRestrictedView exampleServices exampleUser"
    by (simp add: exampleServices_def)
  have allowed: "\<not> (configurationService_get exampleServices ''ENABLE_FEATURE_SUBSCRIPTION''
                       \<and> type (subscription exampleUser) = ''Basic'')"
    by (simp add: exampleServices_def)
  have before: "PortfolioDetails.holdings exampleDetails = PortfolioDetails.holdings
      (portfolioService_getDetails exampleServices None (id' exampleUser) None)"
    by (simp add: exampleServices_def)
  have finite: "\<forall>(symbol, p)\<in>set (PortfolioDetails.holdings exampleDetails).
      isFinite (PortfolioPosition.investment p)"
    by (simp add: exampleDetails_def exampleHolding_def)
  have total: "investmentTotal (PortfolioDetails.holdings exampleDetails) = 800"
    by (simp add: exampleDetails_def exampleHolding_def investmentTotal_def)
  then have nonzero: "investmentTotal (PortfolioDetails.holdings exampleDetails) \<noteq> 0"
    by simp
  from getDetails_restricted_view_normalizes
         [OF run user restricted allowed before finite nonzero]
  have "map (\<lambda>(symbol, p).
               (symbol, PortfolioPosition.investment p, PortfolioPosition.quantity p,
                PortfolioPosition.grossPerformance p, PortfolioPosition.netPerformance p))
           (PortfolioDetails.holdings (body response))
         = [(''AAA'', Fin (3 / 4), None, None, None), (''BBB'', Fin (1 / 4), None, None, None)]"
    and "investmentTotal (PortfolioDetails.holdings (body response)) = 1"
    by (simp_all add: total) (simp add: exampleDetails_def exampleHolding_def)
  with run user restricted finite total show ?thesis
    by - (intro exI [of _ response] conjI; assumption)
qed

end
